theory Spec2Isabelle
  imports Complex_Main
begin

section \<open>Numbers, vectors and matrices\<close>

text \<open>
  The demos are TypeScript modules that glue three libraries together: a linear-algebra
  library (\<^verbatim>\<open>Vector3\<close>, \<^verbatim>\<open>Matrix4\<close>), a keyframe/timeline engine and a GPU
  backend. A JavaScript \<^verbatim>\<open>number\<close> is modelled as a \<^typ>\<open>real\<close>: rounding, NaN, the
  infinities and the sign of zero are not represented, and a \<^verbatim>\<open>Float32Array\<close> is a list
  of reals (the narrowing to 32 bits is not represented either). \<^verbatim>\<open>Math.PI\<close> is
  \<^term>\<open>pi\<close>.
\<close>

datatype Vector3 = Vector3 (vx: real) (vy: real) (vz: real)

text \<open>\<^verbatim>\<open>...v\<close>: the three components of a vector, in order.\<close>

definition spread :: "Vector3 \<Rightarrow> real list" where
  "spread v = [vx v, vy v, vz v]"

text \<open>
  Modelled from the spec: the \<^verbatim>\<open>Math3D\<close> collaborator (vector3
  construct/subtract/cross/normalize/transform, matrix4
  construction/multiply/look-at/perspective/rotate) is imported by the sources and is not
  part of them. Its operations are written out below in the usual column-major form, each
  in-place method as a function from the receiver to its new value.
\<close>

definition subtract :: "Vector3 \<Rightarrow> Vector3 \<Rightarrow> Vector3" where
  "subtract a b = Vector3 (vx a - vx b) (vy a - vy b) (vz a - vz b)"

definition cross :: "Vector3 \<Rightarrow> Vector3 \<Rightarrow> Vector3" where
  "cross a b = Vector3 (vy a * vz b - vz a * vy b)
                       (vz a * vx b - vx a * vz b)
                       (vx a * vy b - vy a * vx b)"

definition magnitude :: "Vector3 \<Rightarrow> real" where
  "magnitude v = sqrt (vx v * vx v + vy v * vy v + vz v * vz v)"

text \<open>Modelled from the spec: \<^verbatim>\<open>normalize\<close> leaves a vector of length zero as it is.\<close>

definition normalize_vec :: "Vector3 \<Rightarrow> Vector3" where
  "normalize_vec v =
     (let l = magnitude v
      in if l \<noteq> 0 then Vector3 (vx v / l) (vy v / l) (vz v / l) else v)"

text \<open>
  Modelled from the spec: a 4x4 matrix is its sixteen entries in column-major order, as
  the array holds them.
\<close>

datatype Matrix4 = Matrix4
  (m0: real) (m1: real) (m2: real) (m3: real)
  (m4: real) (m5: real) (m6: real) (m7: real)
  (m8: real) (m9: real) (m10: real) (m11: real)
  (m12: real) (m13: real) (m14: real) (m15: real)

text \<open>Modelled from the spec: \<^verbatim>\<open>new Matrix4()\<close> is the identity.\<close>

definition identity :: Matrix4 where
  "identity = Matrix4 1 0 0 0  0 1 0 0  0 0 1 0  0 0 0 1"

definition EPSILON :: real where
  "EPSILON = 1 / 1000000"

definition hypot3 :: "real \<Rightarrow> real \<Rightarrow> real \<Rightarrow> real" where
  "hypot3 x y z = sqrt (x * x + y * y + z * z)"

text \<open>
  Modelled from the spec: \<^verbatim>\<open>m.lookAt({eye, center = [0,0,0], up = [0,1,0]})\<close>
  overwrites every entry of the receiver, which is why the receiver \<open>out\<close> does not
  occur on the right.
\<close>

definition lookAt_full :: "Matrix4 \<Rightarrow> Vector3 \<Rightarrow> Vector3 \<Rightarrow> Vector3 \<Rightarrow> Matrix4" where
  "lookAt_full out eye center up =
     (if \<bar>vx eye - vx center\<bar> < EPSILON \<and> \<bar>vy eye - vy center\<bar> < EPSILON
         \<and> \<bar>vz eye - vz center\<bar> < EPSILON
      then identity
      else
        let z0 = vx eye - vx center; z1 = vy eye - vy center; z2 = vz eye - vz center;
            len = 1 / hypot3 z0 z1 z2;
            z0 = z0 * len; z1 = z1 * len; z2 = z2 * len;
            x0 = vy up * z2 - vz up * z1;
            x1 = vz up * z0 - vx up * z2;
            x2 = vx up * z1 - vy up * z0;
            len = hypot3 x0 x1 x2;
            x0 = (if len = 0 then 0 else x0 * (1 / len));
            x1 = (if len = 0 then 0 else x1 * (1 / len));
            x2 = (if len = 0 then 0 else x2 * (1 / len));
            y0 = z1 * x2 - z2 * x1;
            y1 = z2 * x0 - z0 * x2;
            y2 = z0 * x1 - z1 * x0;
            len = hypot3 y0 y1 y2;
            y0 = (if len = 0 then 0 else y0 * (1 / len));
            y1 = (if len = 0 then 0 else y1 * (1 / len));
            y2 = (if len = 0 then 0 else y2 * (1 / len))
        in Matrix4 x0 y0 z0 0
                   x1 y1 z1 0
                   x2 y2 z2 0
                   (- (x0 * vx eye + x1 * vy eye + x2 * vz eye))
                   (- (y0 * vx eye + y1 * vy eye + y2 * vz eye))
                   (- (z0 * vx eye + z1 * vy eye + z2 * vz eye))
                   1)"

definition lookAt :: "Matrix4 \<Rightarrow> Vector3 \<Rightarrow> Matrix4" where
  "lookAt out eye = lookAt_full out eye (Vector3 0 0 0) (Vector3 0 1 0)"

text \<open>
  Modelled from the spec: \<^verbatim>\<open>m.transformAsPoint(v)\<close> returns a fresh vector and leaves
  \<open>m\<close> alone. The three rotations update the receiver in place.
\<close>

definition transformAsPoint :: "Matrix4 \<Rightarrow> Vector3 \<Rightarrow> Vector3" where
  "transformAsPoint m v =
     (let x = vx v; y = vy v; z = vz v;
          w = m3 m * x + m7 m * y + m11 m * z + m15 m;
          w = (if w = 0 then 1 else w)
      in Vector3 ((m0 m * x + m4 m * y + m8 m * z + m12 m) / w)
                 ((m1 m * x + m5 m * y + m9 m * z + m13 m) / w)
                 ((m2 m * x + m6 m * y + m10 m * z + m14 m) / w))"

definition rotateX :: "Matrix4 \<Rightarrow> real \<Rightarrow> Matrix4" where
  "rotateX a rad =
     (let s = sin rad; c = cos rad
      in Matrix4 (m0 a) (m1 a) (m2 a) (m3 a)
                 (m4 a * c + m8 a * s) (m5 a * c + m9 a * s)
                 (m6 a * c + m10 a * s) (m7 a * c + m11 a * s)
                 (m8 a * c - m4 a * s) (m9 a * c - m5 a * s)
                 (m10 a * c - m6 a * s) (m11 a * c - m7 a * s)
                 (m12 a) (m13 a) (m14 a) (m15 a))"

definition rotateY :: "Matrix4 \<Rightarrow> real \<Rightarrow> Matrix4" where
  "rotateY a rad =
     (let s = sin rad; c = cos rad
      in Matrix4 (m0 a * c - m8 a * s) (m1 a * c - m9 a * s)
                 (m2 a * c - m10 a * s) (m3 a * c - m11 a * s)
                 (m4 a) (m5 a) (m6 a) (m7 a)
                 (m0 a * s + m8 a * c) (m1 a * s + m9 a * c)
                 (m2 a * s + m10 a * c) (m3 a * s + m11 a * c)
                 (m12 a) (m13 a) (m14 a) (m15 a))"

definition rotateZ :: "Matrix4 \<Rightarrow> real \<Rightarrow> Matrix4" where
  "rotateZ a rad =
     (let s = sin rad; c = cos rad
      in Matrix4 (m0 a * c + m4 a * s) (m1 a * c + m5 a * s)
                 (m2 a * c + m6 a * s) (m3 a * c + m7 a * s)
                 (m4 a * c - m0 a * s) (m5 a * c - m1 a * s)
                 (m6 a * c - m2 a * s) (m7 a * c - m3 a * s)
                 (m8 a) (m9 a) (m10 a) (m11 a)
                 (m12 a) (m13 a) (m14 a) (m15 a))"

text \<open>
  Modelled from the spec: \<^verbatim>\<open>m.rotateXYZ([rx, ry, rz])\<close> is
  \<^verbatim>\<open>m.rotateX(rx).rotateY(ry).rotateZ(rz)\<close>.
\<close>

definition rotateXYZ :: "Matrix4 \<Rightarrow> real \<times> real \<times> real \<Rightarrow> Matrix4" where
  "rotateXYZ a angleXYZ =
     (case angleXYZ of (rx, ry, rz) \<Rightarrow> rotateZ (rotateY (rotateX a rx) ry) rz)"

text \<open>
  Modelled from the spec: \<^verbatim>\<open>m.perspective({fovy, aspect, near = 0.1, far = 500})\<close>
  overwrites every entry of the receiver \<open>out\<close>.
\<close>

definition perspective_full :: "Matrix4 \<Rightarrow> real \<Rightarrow> real \<Rightarrow> real \<Rightarrow> real \<Rightarrow> Matrix4" where
  "perspective_full out fovy aspect near far =
     (let f = 1 / tan (fovy / 2);
          nf = 1 / (near - far)
      in Matrix4 (f / aspect) 0 0 0
                 0 f 0 0
                 0 0 ((far + near) * nf) (- 1)
                 0 0 (2 * far * near * nf) 0)"

definition perspective :: "Matrix4 \<Rightarrow> real \<Rightarrow> real \<Rightarrow> Matrix4" where
  "perspective out fovy aspect = perspective_full out fovy aspect (1 / 10) 500"

text \<open>
  Modelled from the spec: \<^verbatim>\<open>a.multiplyRight(b)\<close> replaces \<open>a\<close> by the product
  \<open>a b\<close>.
\<close>

definition multiplyRight :: "Matrix4 \<Rightarrow> Matrix4 \<Rightarrow> Matrix4" where
  "multiplyRight a b = Matrix4
     (m0 b * m0 a + m1 b * m4 a + m2 b * m8 a + m3 b * m12 a)
     (m0 b * m1 a + m1 b * m5 a + m2 b * m9 a + m3 b * m13 a)
     (m0 b * m2 a + m1 b * m6 a + m2 b * m10 a + m3 b * m14 a)
     (m0 b * m3 a + m1 b * m7 a + m2 b * m11 a + m3 b * m15 a)
     (m4 b * m0 a + m5 b * m4 a + m6 b * m8 a + m7 b * m12 a)
     (m4 b * m1 a + m5 b * m5 a + m6 b * m9 a + m7 b * m13 a)
     (m4 b * m2 a + m5 b * m6 a + m6 b * m10 a + m7 b * m14 a)
     (m4 b * m3 a + m5 b * m7 a + m6 b * m11 a + m7 b * m15 a)
     (m8 b * m0 a + m9 b * m4 a + m10 b * m8 a + m11 b * m12 a)
     (m8 b * m1 a + m9 b * m5 a + m10 b * m9 a + m11 b * m13 a)
     (m8 b * m2 a + m9 b * m6 a + m10 b * m10 a + m11 b * m14 a)
     (m8 b * m3 a + m9 b * m7 a + m10 b * m11 a + m11 b * m15 a)
     (m12 b * m0 a + m13 b * m4 a + m14 b * m8 a + m15 b * m12 a)
     (m12 b * m1 a + m13 b * m5 a + m14 b * m9 a + m15 b * m13 a)
     (m12 b * m2 a + m13 b * m6 a + m14 b * m10 a + m15 b * m14 a)
     (m12 b * m3 a + m13 b * m7 a + m14 b * m11 a + m15 b * m15 a)"

section \<open>The tetrahedron\<close>

text \<open>
  The two tetrahedron demos build the same four corners and the same four face normals;
  \<^verbatim>\<open>surfaceNormal\<close> (called \<^verbatim>\<open>calculateSurfaceNormal\<close> in the interleaved demo) copies
  \<open>p2\<close> and \<open>p3\<close> before subtracting, so the corners are never changed.
\<close>

definition v1 :: Vector3 where "v1 = Vector3 0 0 0"
definition v2 :: Vector3 where "v2 = Vector3 1 0 0"
definition v3 :: Vector3 where "v3 = Vector3 0 1 0"
definition v4 :: Vector3 where "v4 = Vector3 0 0 1"

definition surfaceNormal :: "Vector3 \<Rightarrow> Vector3 \<Rightarrow> Vector3 \<Rightarrow> Vector3" where
  "surfaceNormal p1 p2 p3 =
     (let u = subtract p2 p1;
          v = subtract p3 p2
      in normalize_vec (cross u v))"

definition fn1 :: Vector3 where "fn1 = surfaceNormal v1 v3 v2"
definition fn2 :: Vector3 where "fn2 = surfaceNormal v1 v4 v3"
definition fn3 :: Vector3 where "fn3 = surfaceNormal v1 v2 v4"
definition fn4 :: Vector3 where "fn4 = surfaceNormal v2 v3 v4"

text \<open>The demo with two buffers: positions in one, normals in the other.\<close>

definition positionBuffer :: "real list" where
  "positionBuffer =
     spread v1 @ spread v3 @ spread v2 @
     spread v1 @ spread v4 @ spread v3 @
     spread v1 @ spread v2 @ spread v4 @
     spread v2 @ spread v3 @ spread v4"

definition vertexNormalBuffer :: "real list" where
  "vertexNormalBuffer =
     spread fn1 @ spread fn1 @ spread fn1 @
     spread fn2 @ spread fn2 @ spread fn2 @
     spread fn3 @ spread fn3 @ spread fn3 @
     spread fn4 @ spread fn4 @ spread fn4"

text \<open>The demo with one interleaved buffer: each corner followed by its face's normal.\<close>

definition vertexData_tetra :: "real list" where
  "vertexData_tetra =
     spread v1 @ spread fn1 @ spread v3 @ spread fn1 @ spread v2 @ spread fn1 @
     spread v1 @ spread fn2 @ spread v4 @ spread fn2 @ spread v3 @ spread fn2 @
     spread v1 @ spread fn3 @ spread v2 @ spread fn3 @ spread v4 @ spread fn3 @
     spread v2 @ spread fn4 @ spread v3 @ spread fn4 @ spread v4 @ spread fn4"

section \<open>Keyframe tracks and the timeline\<close>

datatype error = ConfigurationError | TypeError

text \<open>
  Modelled from the spec: the classes \<^verbatim>\<open>KeyFrames\<close> and \<^verbatim>\<open>Timeline\<close> are imported by
  the sources and are not part of them. The definitions of this section follow the spec's
  KeyframeTrack, TimelineChannel and Timeline: a track holds its samples and the
  bracket of the last query time; a query time is clamped into the track's range before
  bracketing; the factor is \<open>(q - t0) / (t1 - t0)\<close>, and \<open>0\<close> when \<open>t1 = t0\<close>; a
  track of a single keyframe brackets it with itself; a track of no keyframes is refused.
\<close>

record KeyFrames =
  keyTimes :: "real list"
  keyValues :: "real list"
  startIndex :: nat
  endIndex :: nat
  factor :: real

definition getStartData :: "KeyFrames \<Rightarrow> real" where
  "getStartData kf = keyValues kf ! startIndex kf"

definition getEndData :: "KeyFrames \<Rightarrow> real" where
  "getEndData kf = keyValues kf ! endIndex kf"

text \<open>The index of the keyframe that starts the bracket of \<open>q\<close>.\<close>

fun bracket :: "real list \<Rightarrow> real \<Rightarrow> nat" where
  "bracket (t0 # t1 # t2 # ts) q = (if q < t1 then 0 else Suc (bracket (t1 # t2 # ts) q))"
| "bracket ts q = 0"

definition setTime :: "KeyFrames \<Rightarrow> real \<Rightarrow> KeyFrames" where
  "setTime kf queryTime =
     (let ts = keyTimes kf;
          q = max (hd ts) (min (last ts) queryTime);
          i = bracket ts q;
          j = (if 2 \<le> length ts then Suc i else i);
          t0 = ts ! i;
          t1 = ts ! j;
          f = (if t1 = t0 then 0 else (q - t0) / (t1 - t0))
      in kf\<lparr>startIndex := i, endIndex := j, factor := f\<rparr>)"

definition evaluate :: "KeyFrames \<Rightarrow> real \<Rightarrow> real" where
  "evaluate kf queryTime =
     (let k = setTime kf queryTime
      in getStartData k + factor k * (getEndData k - getStartData k))"

definition new_KeyFrames :: "(real \<times> real) list \<Rightarrow> error + KeyFrames" where
  "new_KeyFrames keyFrames =
     (if keyFrames = [] then Inl ConfigurationError
      else Inr (setTime \<lparr>keyTimes = map fst keyFrames, keyValues = map snd keyFrames,
                         startIndex = 0, endIndex = 0, factor = 0\<rparr> 0))"

text \<open>
  Modelled from the spec: a channel. \<open>advance\<close> adds \<open>deltaMs * rate\<close> to the elapsed time; the position in the
  cycle is the elapsed time modulo the duration and the number of completed cycles is the
  floor of their quotient; a channel with a finite repeat count that has completed them
  all stays at the end of its last cycle and is finished, and advancing it again changes
  nothing. \<^verbatim>\<open>Number.POSITIVE_INFINITY\<close> as repeat count is \<open>Forever\<close>.
\<close>

datatype Repeat = Times nat | Forever

record ChannelOptions =
  opt_rate :: real
  opt_duration :: real
  opt_repeat :: Repeat

record TimelineChannel =
  durationMs :: real
  repeatCount :: Repeat
  rate :: real
  elapsedMs :: real
  cyclePosition :: real
  completedCycles :: int
  finished :: bool

definition fmod :: "real \<Rightarrow> real \<Rightarrow> real" where
  "fmod x d = x - d * of_int \<lfloor>x / d\<rfloor>"

definition advanceChannel :: "TimelineChannel \<Rightarrow> real \<Rightarrow> TimelineChannel" where
  "advanceChannel ch deltaMs =
     (if finished ch then ch
      else
        let e = elapsedMs ch + deltaMs * rate ch;
            cycles = \<lfloor>e / durationMs ch\<rfloor>;
            fin = (case repeatCount ch of Times n \<Rightarrow> int n \<le> cycles | Forever \<Rightarrow> False)
        in ch\<lparr>elapsedMs := e,
               cyclePosition := (if fin then durationMs ch else fmod e (durationMs ch)),
               completedCycles := cycles,
               finished := fin\<rparr>)"

text \<open>
  Modelled from the spec: the timeline. Adding a channel refuses a duration or a rate
  that is not positive; advancing a paused timeline changes nothing, and advancing a
  playing one advances every channel and sets every attached track to the position of
  its channel. The timeline owns its channels in creation order, and the table of attached tracks: an
  entry is a track with the handle of its channel. The demos keep a reference to each
  track they attach (\<^verbatim>\<open>this.keyFramesX\<close>) and the timeline updates that same object, so
  a reference is the track's index in the table and \<open>track\<close> dereferences it.
\<close>

record Timeline =
  channels :: "TimelineChannel list"
  animations :: "(KeyFrames \<times> nat) list"
  playing :: bool

definition new_Timeline :: Timeline where
  "new_Timeline = \<lparr>channels = [], animations = [], playing = False\<rparr>"

definition addChannel :: "Timeline \<Rightarrow> ChannelOptions \<Rightarrow> error + (Timeline \<times> nat)" where
  "addChannel tline props =
     (if opt_duration props \<le> 0 \<or> opt_rate props \<le> 0 then Inl ConfigurationError
      else Inr (tline\<lparr>channels := channels tline @
                       [\<lparr>durationMs = opt_duration props, repeatCount = opt_repeat props,
                         rate = opt_rate props, elapsedMs = 0, cyclePosition = 0,
                         completedCycles = 0, finished = False\<rparr>]\<rparr>,
                length (channels tline)))"

definition attachAnimation :: "Timeline \<Rightarrow> KeyFrames \<Rightarrow> nat \<Rightarrow> Timeline \<times> nat" where
  "attachAnimation tline kf channelHandle =
     (tline\<lparr>animations := animations tline @ [(kf, channelHandle)]\<rparr>, length (animations tline))"

definition track :: "Timeline \<Rightarrow> nat \<Rightarrow> KeyFrames" where
  "track tline ref = fst (animations tline ! ref)"

definition play :: "Timeline \<Rightarrow> Timeline" where
  "play tline = tline\<lparr>playing := True\<rparr>"

definition advance :: "Timeline \<Rightarrow> real \<Rightarrow> Timeline" where
  "advance tline deltaMs =
     (if \<not> playing tline then tline
      else
        let chs = map (\<lambda>ch. advanceChannel ch deltaMs) (channels tline)
        in tline\<lparr>channels := chs,
               animations :=
                 map (\<lambda>(kf, h). (setTime kf (cyclePosition (chs ! h)), h)) (animations tline)\<rparr>)"

section \<open>The GPU backend, as far as the demos drive it\<close>

text \<open>
  Modelled from the spec: the \<^verbatim>\<open>GraphicsBackend\<close> collaborator is imported by the
  sources and is not part of them. A buffer is the list of floats it was created from. A model keeps what the demos pass
  to \<^verbatim>\<open>new Model\<close> besides the shader sources and the uniform bindings. The device is a
  log of the commands issued to it.
\<close>

record RenderParameters =
  cullMode :: string
  depthWriteEnabled :: bool
  depthCompare :: string

datatype Attribute = Attribute (attribute: string) (format: string) (byteOffset: nat)

datatype BufferLayout =
    Separate string string
  | Interleaved string nat "Attribute list"

record Model =
  topology :: string
  vertexCount :: nat
  bufferLayout :: "BufferLayout list"
  attributes :: "(string \<times> real list) list"
  parameters :: RenderParameters

record ModelNode =
  node_model :: Model
  managedResources :: "real list list"

datatype Command = BeginRenderPass "real list" | Draw Model | EndRenderPass

text \<open>
  Modelled from the spec: the uniform store has a block \<open>app\<close> and a block \<open>lighting\<close>; \<^verbatim>\<open>setUniforms\<close> with
  one block writes that block and leaves the other. A block is \<open>None\<close> until it is first
  written.
\<close>

record 'u UniformStore =
  app :: "'u option"
  lighting :: "Vector3 option"

definition new_UniformStore :: "'u UniformStore" where
  "new_UniformStore = \<lparr>app = None, lighting = None\<rparr>"

record AppUniforms_mvp =
  u_mvpMatrix :: Matrix4
  u_mvMatrix :: Matrix4

record AppUniforms =
  u_modelViewMatrix :: Matrix4
  u_projectionMatrix :: Matrix4

section \<open>The four demos\<close>

text \<open>
  Every demo is a class \<^verbatim>\<open>MyAnimationLoopTemplate\<close>. The sources hold four of them:
  \<^item> \<open>main\<close>: \<^verbatim>\<open>src/src/main.ts\<close>, first module: the tetrahedron with a position buffer
    and a normal buffer, and a model-view-projection matrix;
  \<^item> \<open>part_001\<close>: \<^verbatim>\<open>src/unnamed/part_001\<close>: the tetrahedron with one interleaved buffer;
  \<^item> \<open>part_000\<close>: \<^verbatim>\<open>src/unnamed/part_000\<close>: the icosphere, built in the constructor;
  \<^item> \<open>main_b\<close>: \<^verbatim>\<open>src/src/main.ts\<close>, second module: the icosphere, built in
    \<^verbatim>\<open>onInitialize\<close>, with an optional model node.

  The members the classes share are the fields of \<open>Loop\<close>; \<open>timeline\<close> is the timeline
  the constructor hands to the animation loop, and \<open>commands\<close> is the device's log.
\<close>

record 'u Loop =
  viewMatrix :: Matrix4
  uniformStore :: "'u UniformStore"
  timeline :: Timeline
  commands :: "Command list"

record 'u Tetra = "'u Loop" +
  model :: Model
  keyFramesX :: nat
  keyFramesY :: nat

record Tetra_main = "AppUniforms_mvp Tetra" +
  mvpMatrix :: Matrix4

record Tetra_part_001 = "AppUniforms Tetra" +
  projectionMatrix_tetra :: Matrix4

record Ico = "AppUniforms Loop" +
  projectionMatrix :: Matrix4
  rotationKeyFrames :: nat

record Ico_part_000 = Ico +
  modelNode :: ModelNode

record Ico_main_b = Ico +
  modelNode_opt :: "ModelNode option"

subsection \<open>The tetrahedron demos\<close>

definition eyePosition_tetra :: Vector3 where "eyePosition_tetra = Vector3 0 0 4"
definition lightPosition_tetra :: Vector3 where "lightPosition_tetra = Vector3 (- 2) 2 4"

definition keyFrameData :: "(real \<times> real) list" where
  "keyFrameData = [(0, 0), (2000, 2 * pi)]"

text \<open>
  The timeline of both tetrahedron demos, as a function of the keyframe data: two tracks
  over the same data, a channel \<open>channelX\<close> and a channel \<open>channelY\<close> at rate \<open>0.7\<close>.
  The result is the playing timeline with the references to the two tracks. The
  constructors build it from \<open>keyFrameData\<close>.
\<close>

definition timeline_tetra_with :: "(real \<times> real) list \<Rightarrow> error + (Timeline \<times> nat \<times> nat)" where
  "timeline_tetra_with keyFrames =
     (case new_KeyFrames keyFrames of
        Inl e \<Rightarrow> Inl e
      | Inr kfX \<Rightarrow>
     (case new_KeyFrames keyFrames of
        Inl e \<Rightarrow> Inl e
      | Inr kfY \<Rightarrow>
     (case addChannel new_Timeline
             \<lparr>opt_rate = 1, opt_duration = 2000, opt_repeat = Forever\<rparr> of
        Inl e \<Rightarrow> Inl e
      | Inr (t1, channelX) \<Rightarrow>
     (case addChannel t1
             \<lparr>opt_rate = 7 / 10, opt_duration = 2000 / (7 / 10), opt_repeat = Forever\<rparr> of
        Inl e \<Rightarrow> Inl e
      | Inr (t2, channelY) \<Rightarrow>
     (case attachAnimation t2 kfX channelX of
        (t3, refX) \<Rightarrow>
     (case attachAnimation t3 kfY channelY of
        (t4, refY) \<Rightarrow> Inr (play t4, refX, refY)))))))"

definition timeline_tetra :: "error + (Timeline \<times> nat \<times> nat)" where
  "timeline_tetra = timeline_tetra_with keyFrameData"

definition model_main :: Model where
  "model_main =
     \<lparr>topology = ''triangle-list'',
      vertexCount = 4 * 3,
      bufferLayout = [Separate ''position'' ''float32x3'',
                      Separate ''vertexNormal'' ''float32x3''],
      attributes = [(''position'', positionBuffer), (''vertexNormal'', vertexNormalBuffer)],
      parameters = \<lparr>cullMode = ''back'', depthWriteEnabled = True,
                     depthCompare = ''less-equal''\<rparr>\<rparr>"

definition constructor_main :: "error + Tetra_main" where
  "constructor_main =
     (let view = lookAt identity eyePosition_tetra;
          store = new_UniformStore
                    \<lparr>lighting := Some (transformAsPoint view lightPosition_tetra)\<rparr>
      in case timeline_tetra of
           Inl e \<Rightarrow> Inl e
         | Inr (tline, refX, refY) \<Rightarrow>
             Inr \<lparr>viewMatrix = view, uniformStore = store, timeline = tline, commands = [],
                  model = model_main, keyFramesX = refX, keyFramesY = refY,
                  mvpMatrix = identity\<rparr>)"

definition model_part_001 :: Model where
  "model_part_001 =
     \<lparr>topology = ''triangle-list'',
      vertexCount = 4 * 3,
      bufferLayout = [Interleaved ''vertexData'' 24
                        [Attribute ''position'' ''float32x3'' 0,
                         Attribute ''normal'' ''float32x3'' 12]],
      attributes = [(''vertexData'', vertexData_tetra)],
      parameters = \<lparr>cullMode = ''back'', depthWriteEnabled = True,
                     depthCompare = ''less-equal''\<rparr>\<rparr>"

definition constructor_part_001 :: "error + Tetra_part_001" where
  "constructor_part_001 =
     (let view = lookAt identity eyePosition_tetra;
          store = new_UniformStore
                    \<lparr>lighting := Some (transformAsPoint view lightPosition_tetra)\<rparr>
      in case timeline_tetra of
           Inl e \<Rightarrow> Inl e
         | Inr (tline, refX, refY) \<Rightarrow>
             Inr \<lparr>viewMatrix = view, uniformStore = store, timeline = tline, commands = [],
                  model = model_part_001, keyFramesX = refX, keyFramesY = refY,
                  projectionMatrix_tetra = identity\<rparr>)"

text \<open>
  The first six lines of \<^verbatim>\<open>onRender\<close> are the same in both tetrahedron demos. The last
  operand of \<open>rotationY\<close> is \<open>startRotationX\<close>, as the sources have it.

  \<^verbatim>\<open>new Matrix4(this.viewMatrix)\<close> copies the view matrix, so the rotation changes the
  copy and the member \<open>viewMatrix\<close> keeps its value; \<^verbatim>\<open>perspective\<close> and
  \<^verbatim>\<open>multiplyRight\<close> change the member they are called on. \<^verbatim>\<open>setUniforms\<close> writes the
  values the matrices have at the call into the block \<open>app\<close>.
\<close>

definition rotationX :: "('u, 'z) Tetra_scheme \<Rightarrow> real" where
  "rotationX s =
     (let kfX = track (timeline s) (keyFramesX s);
          startRotationX = getStartData kfX;
          endRotationX = getEndData kfX
      in startRotationX + factor kfX * (endRotationX - startRotationX))"

definition rotationY :: "('u, 'z) Tetra_scheme \<Rightarrow> real" where
  "rotationY s =
     (let kfX = track (timeline s) (keyFramesX s);
          kfY = track (timeline s) (keyFramesY s);
          startRotationX = getStartData kfX;
          startRotationY = getStartData kfY;
          endRotationY = getEndData kfY
      in startRotationY + factor kfY * (endRotationY - startRotationX))"

definition onRender_main :: "Tetra_main \<Rightarrow> real \<Rightarrow> Tetra_main" where
  "onRender_main s aspect =
     (let mvMatrix = rotateXYZ (viewMatrix s) (rotationX s, rotationY s, 0);
          mvp = multiplyRight (perspective (mvpMatrix s) (pi / 3) aspect) mvMatrix
      in s\<lparr>mvpMatrix := mvp,
            uniformStore := (uniformStore s)
              \<lparr>app := Some \<lparr>u_mvpMatrix = mvp, u_mvMatrix = mvMatrix\<rparr>\<rparr>,
            commands := commands s @
              [BeginRenderPass [1, 1, 1, 1], Draw (model s), EndRenderPass]\<rparr>)"

definition onRender_part_001 :: "Tetra_part_001 \<Rightarrow> real \<Rightarrow> Tetra_part_001" where
  "onRender_part_001 s aspect =
     (let modelViewMatrix = rotateXYZ (viewMatrix s) (rotationX s, rotationY s, 0);
          proj = perspective (projectionMatrix_tetra s) (pi / 3) aspect
      in s\<lparr>projectionMatrix_tetra := proj,
            uniformStore := (uniformStore s)
              \<lparr>app := Some \<lparr>u_modelViewMatrix = modelViewMatrix,
                             u_projectionMatrix = proj\<rparr>\<rparr>,
            commands := commands s @
              [BeginRenderPass [1, 1, 1, 1], Draw (model s), EndRenderPass]\<rparr>)"

subsection \<open>The icosphere demos\<close>

text \<open>
  The mesh \<^verbatim>\<open>icoSphereFlat\<close> is imported from a module that is not among the sources,
  so it is a parameter: lists of vertices and normals, and faces \<open>[i, j]\<close> of 1-based
  indices into them. \<open>element xs k\<close> is \<^verbatim>\<open>xs[k]\<close>, which is \<^verbatim>\<open>undefined\<close> out of range;
  spreading \<^verbatim>\<open>undefined\<close> throws a \<^verbatim>\<open>TypeError\<close>.
\<close>

record Mesh =
  vertices :: "real list list"
  normals :: "real list list"
  faces :: "(int \<times> int) list"

definition element :: "'a list \<Rightarrow> int \<Rightarrow> 'a option" where
  "element xs k = (if 0 \<le> k \<and> k < int (length xs) then Some (xs ! nat k) else None)"

definition faceFloats :: "Mesh \<Rightarrow> int \<times> int \<Rightarrow> error + real list" where
  "faceFloats mesh f =
     (case f of (i, j) \<Rightarrow>
        (case element (vertices mesh) (i - 1) of
           None \<Rightarrow> Inl TypeError
         | Some v \<Rightarrow>
             (case element (normals mesh) (j - 1) of
                None \<Rightarrow> Inl TypeError
              | Some n \<Rightarrow> Inr (v @ n))))"

fun flatMap :: "('a \<Rightarrow> error + 'b list) \<Rightarrow> 'a list \<Rightarrow> error + 'b list" where
  "flatMap f [] = Inr []"
| "flatMap f (x # xs) =
     (case f x of
        Inl e \<Rightarrow> Inl e
      | Inr ys \<Rightarrow> (case flatMap f xs of Inl e \<Rightarrow> Inl e | Inr zs \<Rightarrow> Inr (ys @ zs)))"

definition vertexData_ico :: "Mesh \<Rightarrow> error + real list" where
  "vertexData_ico mesh = flatMap (faceFloats mesh) (faces mesh)"

definition eyePosition_ico :: Vector3 where "eyePosition_ico = Vector3 0 1 4"
definition lightPosition_ico :: Vector3 where "lightPosition_ico = Vector3 (- 2) 3 4"

definition rotationKeyFrameData :: "(real \<times> real) list" where
  "rotationKeyFrameData = [(0, 0), (5000, 2 * pi)]"

definition timeline_ico :: "error + (Timeline \<times> nat)" where
  "timeline_ico =
     (case new_KeyFrames rotationKeyFrameData of
        Inl e \<Rightarrow> Inl e
      | Inr kf \<Rightarrow>
     (case addChannel new_Timeline
             \<lparr>opt_rate = 1, opt_duration = 5000, opt_repeat = Forever\<rparr> of
        Inl e \<Rightarrow> Inl e
      | Inr (t1, rotationChannel) \<Rightarrow>
     (case attachAnimation t1 kf rotationChannel of
        (t2, ref) \<Rightarrow> Inr (play t2, ref))))"

text \<open>
  The model of both icosphere demos over the interleaved buffer. The demo with
  \<^verbatim>\<open>onInitialize\<close> passes topology, vertex count, layout and buffer through a
  \<^verbatim>\<open>GPUGeometry\<close>, the other passes them to the model directly.
\<close>

definition model_ico :: "Mesh \<Rightarrow> real list \<Rightarrow> Model" where
  "model_ico mesh vertexData =
     \<lparr>topology = ''triangle-list'',
      vertexCount = length (faces mesh),
      bufferLayout = [Interleaved ''vertexData'' 24
                        [Attribute ''position'' ''float32x3'' 0,
                         Attribute ''normal'' ''float32x3'' 12]],
      attributes = [(''vertexData'', vertexData)],
      parameters = \<lparr>cullMode = ''back'', depthWriteEnabled = True,
                     depthCompare = ''less-equal''\<rparr>\<rparr>"

definition constructor_part_000 :: "Mesh \<Rightarrow> error + Ico_part_000" where
  "constructor_part_000 mesh =
     (let view = lookAt identity eyePosition_ico;
          store = new_UniformStore
                    \<lparr>lighting := Some (transformAsPoint view lightPosition_ico)\<rparr>
      in case vertexData_ico mesh of
           Inl e \<Rightarrow> Inl e
         | Inr vertexData \<Rightarrow>
             (case timeline_ico of
                Inl e \<Rightarrow> Inl e
              | Inr (tline, ref) \<Rightarrow>
                  Inr \<lparr>viewMatrix = view, uniformStore = store, timeline = tline,
                       commands = [], projectionMatrix = identity, rotationKeyFrames = ref,
                       modelNode = \<lparr>node_model = model_ico mesh vertexData,
                                    managedResources = [vertexData]\<rparr>\<rparr>))"

definition constructor_main_b :: "error + Ico_main_b" where
  "constructor_main_b =
     (let view = lookAt identity eyePosition_ico;
          store = new_UniformStore
                    \<lparr>lighting := Some (transformAsPoint view lightPosition_ico)\<rparr>
      in case timeline_ico of
           Inl e \<Rightarrow> Inl e
         | Inr (tline, ref) \<Rightarrow>
             Inr \<lparr>viewMatrix = view, uniformStore = store, timeline = tline,
                  commands = [], projectionMatrix = identity, rotationKeyFrames = ref,
                  modelNode_opt = None\<rparr>)"

definition onInitialize_main_b :: "Mesh \<Rightarrow> Ico_main_b \<Rightarrow> error + Ico_main_b" where
  "onInitialize_main_b mesh s =
     (case vertexData_ico mesh of
        Inl e \<Rightarrow> Inl e
      | Inr vertexData \<Rightarrow>
          Inr (s\<lparr>modelNode_opt := Some \<lparr>node_model = model_ico mesh vertexData,
                                        managedResources = [vertexData]\<rparr>\<rparr>))"

definition rotation :: "'z Ico_scheme \<Rightarrow> real" where
  "rotation s =
     (let kf = track (timeline s) (rotationKeyFrames s);
          startRotation = getStartData kf;
          endRotation = getEndData kf
      in startRotation + factor kf * (endRotation - startRotation))"

definition onRender_part_000 :: "Ico_part_000 \<Rightarrow> real \<Rightarrow> Ico_part_000" where
  "onRender_part_000 s aspect =
     (let modelViewMatrix = rotateY (viewMatrix s) (rotation s);
          proj = perspective (projectionMatrix s) (pi / 3) aspect
      in s\<lparr>projectionMatrix := proj,
            uniformStore := (uniformStore s)
              \<lparr>app := Some \<lparr>u_modelViewMatrix = modelViewMatrix,
                             u_projectionMatrix = proj\<rparr>\<rparr>,
            commands := commands s @
              [BeginRenderPass [1, 1, 1, 1], Draw (node_model (modelNode s)),
               EndRenderPass]\<rparr>)"

text \<open>\<^verbatim>\<open>this.modelNode?.draw(renderPass)\<close> draws only when the node exists.\<close>

definition onRender_main_b :: "Ico_main_b \<Rightarrow> real \<Rightarrow> Ico_main_b" where
  "onRender_main_b s aspect =
     (let modelViewMatrix = rotateY (viewMatrix s) (rotation s);
          proj = perspective (projectionMatrix s) (pi / 3) aspect
      in s\<lparr>projectionMatrix := proj,
            uniformStore := (uniformStore s)
              \<lparr>app := Some \<lparr>u_modelViewMatrix = modelViewMatrix,
                             u_projectionMatrix = proj\<rparr>\<rparr>,
            commands := commands s @ [BeginRenderPass [1, 1, 1, 1]] @
              (case modelNode_opt s of
                 None \<Rightarrow> []
               | Some node \<Rightarrow> [Draw (node_model node)]) @
              [EndRenderPass]\<rparr>)"

subsection \<open>Frames\<close>

text \<open>
  Between two calls of \<^verbatim>\<open>onRender\<close> the animation loop advances the attached timeline.
  A run of a demo is a list of such events, applied in order.
\<close>

datatype Event = Tick real | Render real

fun step :: "(('u, 'z) Loop_scheme \<Rightarrow> real \<Rightarrow> ('u, 'z) Loop_scheme) \<Rightarrow>
             ('u, 'z) Loop_scheme \<Rightarrow> Event \<Rightarrow> ('u, 'z) Loop_scheme" where
  "step onRender s (Tick deltaMs) = s\<lparr>timeline := advance (timeline s) deltaMs\<rparr>"
| "step onRender s (Render aspect) = onRender s aspect"

definition frames :: "(('u, 'z) Loop_scheme \<Rightarrow> real \<Rightarrow> ('u, 'z) Loop_scheme) \<Rightarrow>
                      ('u, 'z) Loop_scheme \<Rightarrow> Event list \<Rightarrow> ('u, 'z) Loop_scheme" where
  "frames onRender s events = foldl (step onRender) s events"

section \<open>Observations and reference definitions\<close>

text \<open>
  What the GPU fetches for a \<^verbatim>\<open>float32x3\<close> attribute: three consecutive floats. In
  the demo with two buffers vertex \<open>k\<close> starts at float \<open>3 k\<close> of each buffer; in the
  interleaved demo the stride of 24 bytes is six floats and the normal's offset of 12
  bytes is three.
\<close>

definition readVec3 :: "real list \<Rightarrow> nat \<Rightarrow> Vector3" where
  "readVec3 buf i = Vector3 (buf ! i) (buf ! (i + 1)) (buf ! (i + 2))"

definition position_main :: "nat \<Rightarrow> Vector3" where
  "position_main k = readVec3 positionBuffer (3 * k)"

definition vertexNormal_main :: "nat \<Rightarrow> Vector3" where
  "vertexNormal_main k = readVec3 vertexNormalBuffer (3 * k)"

definition position_part_001 :: "nat \<Rightarrow> Vector3" where
  "position_part_001 k = readVec3 vertexData_tetra (6 * k)"

definition normal_part_001 :: "nat \<Rightarrow> Vector3" where
  "normal_part_001 k = readVec3 vertexData_tetra (6 * k + 3)"

text \<open>The face normal as the property words it: the normalized \<open>(p2 - p1) \<times> (p3 - p2)\<close>.\<close>

definition spec_faceNormal :: "Vector3 \<Rightarrow> Vector3 \<Rightarrow> Vector3 \<Rightarrow> Vector3" where
  "spec_faceNormal p1 p2 p3 = normalize_vec (cross (subtract p2 p1) (subtract p3 p2))"

text \<open>The interpolation formula \<open>v0 + f * (v1 - v0)\<close> over the accessors of one track.\<close>

definition interpolated :: "KeyFrames \<Rightarrow> real" where
  "interpolated kf = getStartData kf + factor kf * (getEndData kf - getStartData kf)"

text \<open>What a track reports to \<^verbatim>\<open>onRender\<close>.\<close>

definition report :: "KeyFrames \<Rightarrow> real \<times> real \<times> real" where
  "report kf = (getStartData kf, getEndData kf, factor kf)"

text \<open>The channel that owns an attached track.\<close>

definition channelOf :: "Timeline \<Rightarrow> nat \<Rightarrow> TimelineChannel" where
  "channelOf tline ref = channels tline ! snd (animations tline ! ref)"

text \<open>
  The matrix product and the rotation matrices of the textbook, to compare the in-place
  operations with: \<open>entry m r c\<close> is the entry of row \<open>r\<close> and column \<open>c\<close>.
\<close>

definition entry :: "Matrix4 \<Rightarrow> nat \<Rightarrow> nat \<Rightarrow> real" where
  "entry m r c =
     [m0 m, m1 m, m2 m, m3 m, m4 m, m5 m, m6 m, m7 m,
      m8 m, m9 m, m10 m, m11 m, m12 m, m13 m, m14 m, m15 m] ! (4 * c + r)"

definition matrix_of :: "(nat \<Rightarrow> nat \<Rightarrow> real) \<Rightarrow> Matrix4" where
  "matrix_of f = Matrix4 (f 0 0) (f 1 0) (f 2 0) (f 3 0)
                         (f 0 1) (f 1 1) (f 2 1) (f 3 1)
                         (f 0 2) (f 1 2) (f 2 2) (f 3 2)
                         (f 0 3) (f 1 3) (f 2 3) (f 3 3)"

definition matmul :: "Matrix4 \<Rightarrow> Matrix4 \<Rightarrow> Matrix4" where
  "matmul a b = matrix_of (\<lambda>r c. \<Sum>k\<leftarrow>[0, 1, 2, 3]. entry a r k * entry b k c)"

definition Rx :: "real \<Rightarrow> Matrix4" where
  "Rx t = matrix_of (\<lambda>r c.
     [ [1, 0, 0, 0],
      [0, cos t, - sin t, 0],
      [0, sin t, cos t, 0],
      [0, 0, 0, 1]] ! r ! c)"

definition Ry :: "real \<Rightarrow> Matrix4" where
  "Ry t = matrix_of (\<lambda>r c.
     [ [cos t, 0, sin t, 0],
      [0, 1, 0, 0],
      [- sin t, 0, cos t, 0],
      [0, 0, 0, 1]] ! r ! c)"

definition Rz :: "real \<Rightarrow> Matrix4" where
  "Rz t = matrix_of (\<lambda>r c.
     [ [cos t, - sin t, 0, 0],
      [sin t, cos t, 0, 0],
      [0, 0, 1, 0],
      [0, 0, 0, 1]] ! r ! c)"

text \<open>The rasterization state the property names, and the draw calls of a log.\<close>

definition fixedRasterizationState :: RenderParameters where
  "fixedRasterizationState =
     \<lparr>cullMode = ''back'', depthWriteEnabled = True, depthCompare = ''less-equal''\<rparr>"

fun isDraw :: "Command \<Rightarrow> bool" where
  "isDraw (Draw m) = True"
| "isDraw c = False"

definition drawCalls :: "Command list \<Rightarrow> nat" where
  "drawCalls cmds = length (filter isDraw cmds)"

text \<open>
  A mesh is well formed when every vertex and every normal has three floats and every
  face holds 1-based indices of an existing vertex and an existing normal. A buffer of
  floats has four bytes per float, and a \<^verbatim>\<open>float32x3\<close> attribute reads twelve.
\<close>

definition wellFormed :: "Mesh \<Rightarrow> bool" where
  "wellFormed mesh \<longleftrightarrow>
     list_all (\<lambda>v. length v = 3) (vertices mesh) \<and>
     list_all (\<lambda>n. length n = 3) (normals mesh) \<and>
     list_all (\<lambda>(i, j). 1 \<le> i \<and> i \<le> int (length (vertices mesh)) \<and>
                         1 \<le> j \<and> j \<le> int (length (normals mesh))) (faces mesh)"

definition byteLength :: "real list \<Rightarrow> nat" where
  "byteLength buf = 4 * length buf"

definition formatBytes :: "string \<Rightarrow> nat" where
  "formatBytes fmt = (if fmt = ''float32x3'' then 12 else 0)"

text \<open>A mesh of one triangle, to run the icosphere demos on.\<close>

definition triangleMesh :: Mesh where
  "triangleMesh =
     \<lparr>vertices = [ [0, 0, 0], [1, 0, 0], [0, 1, 0]],
      normals = [ [0, 0, 1]],
      faces = [(1, 1), (2, 1), (3, 1)]\<rparr>"

text \<open>A two-keyframe rotation track and a looping channel as they are right after construction.\<close>

definition initialTrack :: "real \<Rightarrow> KeyFrames" where
  "initialTrack t =
     \<lparr>keyTimes = [0, t], keyValues = [0, 2 * pi], startIndex = 0, endIndex = 1, factor = 0\<rparr>"

definition initialChannel :: "real \<Rightarrow> real \<Rightarrow> TimelineChannel" where
  "initialChannel d r =
     \<lparr>durationMs = d, repeatCount = Forever, rate = r, elapsedMs = 0, cyclePosition = 0,
      completedCycles = 0, finished = False\<rparr>"

text \<open>
  The keyframes of a track span one cycle of a channel when they run from value \<open>0\<close> at
  time \<open>0\<close> to value \<open>2 \<pi>\<close> at the time \<open>t\<close>.
\<close>

definition runsTo :: "KeyFrames \<Rightarrow> real \<Rightarrow> bool" where
  "runsTo kf t \<longleftrightarrow>
     keyTimes kf \<noteq> [] \<and> keyValues kf \<noteq> [] \<and>
     hd (keyTimes kf) = 0 \<and> hd (keyValues kf) = 0 \<and>
     last (keyTimes kf) = t \<and> last (keyValues kf) = 2 * pi"

text \<open>
  The claim about the channel cycle, as worded and as the configurations have it: a
  track's keyframes end at its channel's duration, or at the duration times the rate.
\<close>

definition spec_cycleIsFullTurn :: "Timeline \<Rightarrow> nat \<Rightarrow> bool" where
  "spec_cycleIsFullTurn tline ref \<longleftrightarrow>
     runsTo (track tline ref) (durationMs (channelOf tline ref))"

definition cycleIsFullTurn :: "Timeline \<Rightarrow> nat \<Rightarrow> bool" where
  "cycleIsFullTurn tline ref \<longleftrightarrow>
     runsTo (track tline ref) (durationMs (channelOf tline ref) * rate (channelOf tline ref))"

text \<open>
  Two tracks that are in different segments: the timeline of the tetrahedron demos over
  \<open>keyFrameData\<close> with the keyframe \<^verbatim>\<open>[1000, 0.5 * Math.PI]\<close> that the sources comment
  out, 1200 ms after its start. The first track is then at time 1200, in its second
  segment, and the second, at rate \<open>0.7\<close>, at time 840, in its first.
\<close>

definition keyFrameData_three :: "(real \<times> real) list" where
  "keyFrameData_three = [(0, 0), (1000, 0.5 * pi), (2000, 2 * pi)]"

definition timeline_segments :: Timeline where
  "timeline_segments =
     (case timeline_tetra_with keyFrameData_three of
        Inl e \<Rightarrow> new_Timeline
      | Inr (tline, refX, refY) \<Rightarrow> advance tline 1200)"

text \<open>The timelines as the constructors leave them.\<close>

definition initialTimeline_tetra :: Timeline where
  "initialTimeline_tetra =
     \<lparr>channels = [initialChannel 2000 1, initialChannel (2000 / (7 / 10)) (7 / 10)],
      animations = [(initialTrack 2000, 0), (initialTrack 2000, 1)],
      playing = True\<rparr>"

definition initialTimeline_ico :: Timeline where
  "initialTimeline_ico =
     \<lparr>channels = [initialChannel 5000 1],
      animations = [(initialTrack 5000, 0)], playing = True\<rparr>"

text \<open>
  The camera and the light of a demo are those of its constructor when the view matrix
  is the look-at matrix of the eye position and the light uniform is the light position
  transformed by it as a point. Two states have the same animation state when they agree
  on the view matrix, the light uniform and the timeline with its tracks.
\<close>

definition cameraAndLight :: "('u, 'z) Loop_scheme \<Rightarrow> Vector3 \<Rightarrow> Vector3 \<Rightarrow> bool" where
  "cameraAndLight s eye light \<longleftrightarrow>
     viewMatrix s = lookAt identity eye \<and>
     lighting (uniformStore s) = Some (transformAsPoint (lookAt identity eye) light)"

definition sameAnimationState ::
    "('u, 'z) Loop_scheme \<Rightarrow> ('u, 'z) Loop_scheme \<Rightarrow> bool" where
  "sameAnimationState s s' \<longleftrightarrow>
     viewMatrix s' = viewMatrix s \<and>
     lighting (uniformStore s') = lighting (uniformStore s) \<and>
     timeline s' = timeline s"

section \<open>Properties\<close>

subsection \<open>Face normals of the tetrahedron\<close>

lemma fn1_eq: "fn1 = Vector3 0 0 (- 1)"
  by (simp add: fn1_def surfaceNormal_def v1_def v2_def v3_def subtract_def cross_def
      normalize_vec_def magnitude_def)

lemma fn2_eq: "fn2 = Vector3 (- 1) 0 0"
  by (simp add: fn2_def surfaceNormal_def v1_def v4_def v3_def subtract_def cross_def
      normalize_vec_def magnitude_def)

lemma fn3_eq: "fn3 = Vector3 0 (- 1) 0"
  by (simp add: fn3_def surfaceNormal_def v1_def v2_def v4_def subtract_def cross_def
      normalize_vec_def magnitude_def)

lemma fn4_eq: "fn4 = Vector3 (1 / sqrt 3) (1 / sqrt 3) (1 / sqrt 3)"
  by (simp add: fn4_def surfaceNormal_def v2_def v3_def v4_def subtract_def cross_def
      normalize_vec_def magnitude_def Let_def)

lemma surfaceNormal_spec: "surfaceNormal p1 p2 p3 = spec_faceNormal p1 p2 p3"
  by (simp add: surfaceNormal_def spec_faceNormal_def)

lemma magnitude_fn:
  "magnitude fn1 = 1" "magnitude fn2 = 1" "magnitude fn3 = 1" "magnitude fn4 = 1"
  by (simp_all add: fn1_eq fn2_eq fn3_eq fn4_eq magnitude_def)

text \<open>Normalizing gives length one, except for the zero vector, which stays as it is.\<close>

lemma magnitude_normalize_vec:
  "magnitude (normalize_vec v) = (if magnitude v = 0 then 0 else 1)"
proof (cases "magnitude v = 0")
  case True
  then show ?thesis by (simp add: normalize_vec_def)
next
  case False
  define l where "l = magnitude v"
  have l0: "l \<noteq> 0" using False l_def by simp
  have sq: "l * l = vx v * vx v + vy v * vy v + vz v * vz v"
    unfolding l_def magnitude_def by (simp add: add_nonneg_nonneg)
  have "magnitude (Vector3 (vx v / l) (vy v / l) (vz v / l)) =
          sqrt ((vx v * vx v + vy v * vy v + vz v * vz v) / (l * l))"
    unfolding magnitude_def by (simp add: add_divide_distrib)
  also have "\<dots> = sqrt ((l * l) / (l * l))" by (simp only: sq)
  also have "\<dots> = 1" using l0 by simp
  finally show ?thesis using False by (simp add: normalize_vec_def l_def Let_def)
qed

text \<open>
  C9. In both tetrahedron demos the three vertices of each of the four faces carry the
  same normal: the normalized cross product \<open>(p2 - p1) \<times> (p3 - p2)\<close> of the face's three
  positions, read from the buffer in buffer order. Every stored normal has length one.
\<close>

theorem tetra_normals:
  "\<forall>f<4. \<forall>j<3.
     vertexNormal_main (3 * f + j) =
       spec_faceNormal (position_main (3 * f)) (position_main (3 * f + 1))
         (position_main (3 * f + 2)) \<and>
     magnitude (vertexNormal_main (3 * f + j)) = 1 \<and>
     normal_part_001 (3 * f + j) =
       spec_faceNormal (position_part_001 (3 * f)) (position_part_001 (3 * f + 1))
         (position_part_001 (3 * f + 2)) \<and>
     magnitude (normal_part_001 (3 * f + j)) = 1"
proof (intro allI impI)
  fix f j :: nat
  assume "f < 4" "j < 3"
  then have f: "f = 0 \<or> f = 1 \<or> f = 2 \<or> f = 3" and j: "j = 0 \<or> j = 1 \<or> j = 2"
    by arith+
  have n: "vertexNormal_main (3 * f + j) = [fn1, fn2, fn3, fn4] ! f"
          "normal_part_001 (3 * f + j) = [fn1, fn2, fn3, fn4] ! f"
    using f j
    by (auto simp add: vertexNormal_main_def vertexNormalBuffer_def normal_part_001_def
        vertexData_tetra_def readVec3_def spread_def)
  have p: "spec_faceNormal (position_main (3 * f)) (position_main (3 * f + 1))
             (position_main (3 * f + 2)) = [fn1, fn2, fn3, fn4] ! f"
          "spec_faceNormal (position_part_001 (3 * f)) (position_part_001 (3 * f + 1))
             (position_part_001 (3 * f + 2)) = [fn1, fn2, fn3, fn4] ! f"
    using f
    by (auto simp add: position_main_def positionBuffer_def position_part_001_def
        vertexData_tetra_def readVec3_def spread_def surfaceNormal_spec [symmetric]
        fn1_def fn2_def fn3_def fn4_def)
  have m: "magnitude ([fn1, fn2, fn3, fn4] ! f) = 1"
    using f by (auto simp add: magnitude_fn)
  show "vertexNormal_main (3 * f + j) =
          spec_faceNormal (position_main (3 * f)) (position_main (3 * f + 1))
            (position_main (3 * f + 2)) \<and>
        magnitude (vertexNormal_main (3 * f + j)) = 1 \<and>
        normal_part_001 (3 * f + j) =
          spec_faceNormal (position_part_001 (3 * f)) (position_part_001 (3 * f + 1))
            (position_part_001 (3 * f + 2)) \<and>
        magnitude (normal_part_001 (3 * f + j)) = 1"
    by (simp only: n p m)
qed

text \<open>The last face, whose normal is not along an axis, at its second vertex.\<close>

theorem tetra_normals_witness:
  "(3::nat) < 4 \<and> (1::nat) < 3 \<and>
   vertexNormal_main 10 = spec_faceNormal (position_main 9) (position_main 10) (position_main 11) \<and>
   magnitude (vertexNormal_main 10) = 1 \<and>
   normal_part_001 10 =
     spec_faceNormal (position_part_001 9) (position_part_001 10) (position_part_001 11) \<and>
   magnitude (normal_part_001 10) = 1"
  using tetra_normals [rule_format, of 3 1] by auto

subsection \<open>Construction of the timelines\<close>

lemma new_KeyFrames_two:
  "0 < t \<Longrightarrow> new_KeyFrames [(0, 0), (t, 2 * pi)] = Inr (initialTrack t)"
  by (simp add: new_KeyFrames_def setTime_def Let_def initialTrack_def)

lemma timeline_tetra_eq:
  "timeline_tetra =
     Inr (\<lparr>channels = [initialChannel 2000 1, initialChannel (2000 / (7 / 10)) (7 / 10)],
           animations = [(initialTrack 2000, 0), (initialTrack 2000, 1)],
           playing = True\<rparr>, 0, 1)"
  by (simp add: timeline_tetra_def timeline_tetra_with_def keyFrameData_def new_KeyFrames_two
      addChannel_def new_Timeline_def attachAnimation_def play_def initialChannel_def)

lemma timeline_ico_eq:
  "timeline_ico =
     Inr (\<lparr>channels = [initialChannel 5000 1],
           animations = [(initialTrack 5000, 0)], playing = True\<rparr>, 0)"
  by (simp add: timeline_ico_def rotationKeyFrameData_def new_KeyFrames_two addChannel_def
      new_Timeline_def attachAnimation_def play_def initialChannel_def)

lemma timeline_tetra_init: "timeline_tetra = Inr (initialTimeline_tetra, 0, 1)"
  by (simp add: timeline_tetra_eq initialTimeline_tetra_def)

lemma timeline_ico_init: "timeline_ico = Inr (initialTimeline_ico, 0)"
  by (simp add: timeline_ico_eq initialTimeline_ico_def)

subsection \<open>The in-place matrix operations are matrix products\<close>

lemma entry_simps:
  "entry m 0 0 = m0 m" "entry m (Suc 0) 0 = m1 m" "entry m 2 0 = m2 m" "entry m 3 0 = m3 m"
  "entry m 0 (Suc 0) = m4 m" "entry m (Suc 0) (Suc 0) = m5 m" "entry m 2 (Suc 0) = m6 m"
  "entry m 3 (Suc 0) = m7 m"
  "entry m 0 2 = m8 m" "entry m (Suc 0) 2 = m9 m" "entry m 2 2 = m10 m" "entry m 3 2 = m11 m"
  "entry m 0 3 = m12 m" "entry m (Suc 0) 3 = m13 m" "entry m 2 3 = m14 m" "entry m 3 3 = m15 m"
  by (simp_all add: entry_def)

lemma multiplyRight_matmul: "multiplyRight a b = matmul a b"
  by (simp add: multiplyRight_def matmul_def matrix_of_def entry_simps mult.commute)

lemma Rx_explicit:
  "Rx t = Matrix4 1 0 0 0  0 (cos t) (sin t) 0  0 (- sin t) (cos t) 0  0 0 0 1"
  by (simp add: Rx_def matrix_of_def)

lemma Ry_explicit:
  "Ry t = Matrix4 (cos t) 0 (- sin t) 0  0 1 0 0  (sin t) 0 (cos t) 0  0 0 0 1"
  by (simp add: Ry_def matrix_of_def)

lemma Rz_explicit:
  "Rz t = Matrix4 (cos t) (sin t) 0 0  (- sin t) (cos t) 0 0  0 0 1 0  0 0 0 1"
  by (simp add: Rz_def matrix_of_def)

lemma rotateX_matmul: "rotateX a t = matmul a (Rx t)"
  by (simp add: rotateX_def Rx_explicit matmul_def matrix_of_def entry_simps Let_def)

lemma rotateY_matmul: "rotateY a t = matmul a (Ry t)"
  by (simp add: rotateY_def Ry_explicit matmul_def matrix_of_def entry_simps Let_def)

lemma rotateZ_matmul: "rotateZ a t = matmul a (Rz t)"
  by (simp add: rotateZ_def Rz_explicit matmul_def matrix_of_def entry_simps Let_def)

lemma matmul_assoc: "matmul (matmul a b) c = matmul a (matmul b c)"
  by (simp add: matmul_def matrix_of_def entry_simps algebra_simps)

lemma matmul_identity: "matmul a identity = a"
  by (simp add: matmul_def matrix_of_def entry_simps identity_def)

lemma Rx_0: "Rx 0 = identity" and Ry_0: "Ry 0 = identity" and Rz_0: "Rz 0 = identity"
  by (simp_all add: Rx_explicit Ry_explicit Rz_explicit identity_def)

lemma rotateXYZ_matmul:
  "rotateXYZ a (rx, ry, rz) = matmul a (matmul (matmul (Rx rx) (Ry ry)) (Rz rz))"
  by (simp add: rotateXYZ_def rotateX_matmul rotateY_matmul rotateZ_matmul matmul_assoc)

lemma rotateXYZ_zero: "rotateXYZ a (0, 0, 0) = a"
  by (simp add: rotateXYZ_matmul Rx_0 Ry_0 Rz_0 matmul_identity)

lemma rotateY_zero: "rotateY a 0 = a"
  by (simp add: rotateY_matmul Ry_0 matmul_identity)

text \<open>\<^verbatim>\<open>perspective\<close> overwrites its receiver: what the receiver held does not matter.\<close>

lemma perspective_receiver: "perspective out fovy aspect = perspective out' fovy aspect"
  by (simp add: perspective_def perspective_full_def)

subsection \<open>What a frame writes\<close>

lemma onRender_main_writes:
  "onRender_main s aspect =
     s\<lparr>mvpMatrix := multiplyRight (perspective (mvpMatrix s) (pi / 3) aspect)
                      (rotateXYZ (viewMatrix s) (rotationX s, rotationY s, 0)),
       uniformStore := (uniformStore s)
         \<lparr>app := Some \<lparr>u_mvpMatrix =
                          multiplyRight (perspective (mvpMatrix s) (pi / 3) aspect)
                            (rotateXYZ (viewMatrix s) (rotationX s, rotationY s, 0)),
                        u_mvMatrix =
                          rotateXYZ (viewMatrix s) (rotationX s, rotationY s, 0)\<rparr>\<rparr>,
       commands := commands s @
         [BeginRenderPass [1, 1, 1, 1], Draw (model s), EndRenderPass]\<rparr>"
  by (simp add: onRender_main_def Let_def)

lemma onRender_part_001_writes:
  "onRender_part_001 s aspect =
     s\<lparr>projectionMatrix_tetra := perspective (projectionMatrix_tetra s) (pi / 3) aspect,
       uniformStore := (uniformStore s)
         \<lparr>app := Some \<lparr>u_modelViewMatrix =
                          rotateXYZ (viewMatrix s) (rotationX s, rotationY s, 0),
                        u_projectionMatrix =
                          perspective (projectionMatrix_tetra s) (pi / 3) aspect\<rparr>\<rparr>,
       commands := commands s @
         [BeginRenderPass [1, 1, 1, 1], Draw (model s), EndRenderPass]\<rparr>"
  by (simp add: onRender_part_001_def Let_def)

lemma onRender_part_000_writes:
  "onRender_part_000 s aspect =
     s\<lparr>projectionMatrix := perspective (projectionMatrix s) (pi / 3) aspect,
       uniformStore := (uniformStore s)
         \<lparr>app := Some \<lparr>u_modelViewMatrix = rotateY (viewMatrix s) (rotation s),
                        u_projectionMatrix =
                          perspective (projectionMatrix s) (pi / 3) aspect\<rparr>\<rparr>,
       commands := commands s @
         [BeginRenderPass [1, 1, 1, 1], Draw (node_model (modelNode s)), EndRenderPass]\<rparr>"
  by (simp add: onRender_part_000_def Let_def)

lemma onRender_main_b_writes:
  "onRender_main_b s aspect =
     s\<lparr>projectionMatrix := perspective (projectionMatrix s) (pi / 3) aspect,
       uniformStore := (uniformStore s)
         \<lparr>app := Some \<lparr>u_modelViewMatrix = rotateY (viewMatrix s) (rotation s),
                        u_projectionMatrix =
                          perspective (projectionMatrix s) (pi / 3) aspect\<rparr>\<rparr>,
       commands := commands s @ [BeginRenderPass [1, 1, 1, 1]] @
         (case modelNode_opt s of None \<Rightarrow> [] | Some node \<Rightarrow> [Draw (node_model node)]) @
         [EndRenderPass]\<rparr>"
  by (simp add: onRender_main_b_def Let_def)

text \<open>
  C4. In the demo that computes a model-view-projection matrix, the \<open>mvpMatrix\<close> a frame
  uploads (and keeps in its member) is the product of the perspective matrix of that
  frame's aspect ratio with the model-view matrix, and the model-view matrix is the view
  matrix times the rotation about X, then Y, then Z by the frame's angles. What the
  member held before the frame, \<open>out\<close> below, does not matter.
\<close>

theorem mvp_is_projection_times_modelView:
  "app (uniformStore (onRender_main s aspect)) =
     Some \<lparr>u_mvpMatrix =
             matmul (perspective out (pi / 3) aspect)
               (matmul (viewMatrix s)
                  (matmul (matmul (Rx (rotationX s)) (Ry (rotationY s))) (Rz 0))),
           u_mvMatrix =
             matmul (viewMatrix s)
               (matmul (matmul (Rx (rotationX s)) (Ry (rotationY s))) (Rz 0))\<rparr> \<and>
   mvpMatrix (onRender_main s aspect) =
     matmul (perspective out (pi / 3) aspect)
       (matmul (viewMatrix s)
          (matmul (matmul (Rx (rotationX s)) (Ry (rotationY s))) (Rz 0)))"
  by (simp add: onRender_main_writes multiplyRight_matmul rotateXYZ_matmul
      perspective_receiver [of "mvpMatrix s" _ _ out])

subsection \<open>What the constructors build\<close>

lemma constructor_main_eq:
  "constructor_main =
     Inr \<lparr>viewMatrix = lookAt identity eyePosition_tetra,
          uniformStore = \<lparr>app = None,
            lighting = Some (transformAsPoint (lookAt identity eyePosition_tetra)
                               lightPosition_tetra)\<rparr>,
          timeline = initialTimeline_tetra, commands = [],
          model = model_main, keyFramesX = 0, keyFramesY = 1, mvpMatrix = identity\<rparr>"
  by (simp add: constructor_main_def timeline_tetra_init new_UniformStore_def Let_def)

lemma constructor_part_001_eq:
  "constructor_part_001 =
     Inr \<lparr>viewMatrix = lookAt identity eyePosition_tetra,
          uniformStore = \<lparr>app = None,
            lighting = Some (transformAsPoint (lookAt identity eyePosition_tetra)
                               lightPosition_tetra)\<rparr>,
          timeline = initialTimeline_tetra, commands = [],
          model = model_part_001, keyFramesX = 0, keyFramesY = 1,
          projectionMatrix_tetra = identity\<rparr>"
  by (simp add: constructor_part_001_def timeline_tetra_init new_UniformStore_def Let_def)

lemma constructor_main_b_eq:
  "constructor_main_b =
     Inr \<lparr>viewMatrix = lookAt identity eyePosition_ico,
          uniformStore = \<lparr>app = None,
            lighting = Some (transformAsPoint (lookAt identity eyePosition_ico)
                               lightPosition_ico)\<rparr>,
          timeline = initialTimeline_ico, commands = [],
          projectionMatrix = identity, rotationKeyFrames = 0, modelNode_opt = None\<rparr>"
  by (simp add: constructor_main_b_def timeline_ico_init new_UniformStore_def Let_def)

lemma constructor_part_000_eq:
  "vertexData_ico mesh = Inr vertexData \<Longrightarrow>
   constructor_part_000 mesh =
     Inr \<lparr>viewMatrix = lookAt identity eyePosition_ico,
          uniformStore = \<lparr>app = None,
            lighting = Some (transformAsPoint (lookAt identity eyePosition_ico)
                               lightPosition_ico)\<rparr>,
          timeline = initialTimeline_ico, commands = [],
          projectionMatrix = identity, rotationKeyFrames = 0,
          modelNode = \<lparr>node_model = model_ico mesh vertexData,
                       managedResources = [vertexData]\<rparr>\<rparr>"
  by (simp add: constructor_part_000_def timeline_ico_init new_UniformStore_def Let_def)

lemma constructor_part_000_Inr:
  "constructor_part_000 mesh = Inr s \<Longrightarrow>
   \<exists>vertexData. vertexData_ico mesh = Inr vertexData \<and>
     s = \<lparr>viewMatrix = lookAt identity eyePosition_ico,
          uniformStore = \<lparr>app = None,
            lighting = Some (transformAsPoint (lookAt identity eyePosition_ico)
                               lightPosition_ico)\<rparr>,
          timeline = initialTimeline_ico, commands = [],
          projectionMatrix = identity, rotationKeyFrames = 0,
          modelNode = \<lparr>node_model = model_ico mesh vertexData,
                       managedResources = [vertexData]\<rparr>\<rparr>"
  by (cases "vertexData_ico mesh")
     (auto simp add: constructor_part_000_def timeline_ico_init new_UniformStore_def Let_def)

text \<open>The camera and the light of the tetrahedron demos, evaluated.\<close>

lemma lookAt_eyePosition_tetra:
  "lookAt identity eyePosition_tetra = Matrix4 1 0 0 0  0 1 0 0  0 0 1 0  0 0 (- 4) 1"
  by (simp add: lookAt_def lookAt_full_def eyePosition_tetra_def EPSILON_def hypot3_def
      Let_def)

lemma lightPosition_tetra_in_camera_space:
  "transformAsPoint (lookAt identity eyePosition_tetra) lightPosition_tetra = Vector3 (- 2) 2 0"
  by (simp add: lookAt_eyePosition_tetra transformAsPoint_def lightPosition_tetra_def Let_def)

lemma vertexData_triangleMesh:
  "vertexData_ico triangleMesh = Inr [0, 0, 0, 0, 0, 1,  1, 0, 0, 0, 0, 1,  0, 1, 0, 0, 0, 1]"
  by (simp add: vertexData_ico_def triangleMesh_def faceFloats_def element_def)

lemma constructor_part_000_triangleMesh:
  "constructor_part_000 triangleMesh =
     Inr \<lparr>viewMatrix = lookAt identity eyePosition_ico,
          uniformStore = \<lparr>app = None,
            lighting = Some (transformAsPoint (lookAt identity eyePosition_ico)
                               lightPosition_ico)\<rparr>,
          timeline = initialTimeline_ico, commands = [],
          projectionMatrix = identity, rotationKeyFrames = 0,
          modelNode =
            \<lparr>node_model = model_ico triangleMesh
                 [0, 0, 0, 0, 0, 1,  1, 0, 0, 0, 0, 1,  0, 1, 0, 0, 0, 1],
             managedResources = [ [0, 0, 0, 0, 0, 1,  1, 0, 0, 0, 0, 1,  0, 1, 0, 0, 0, 1]]\<rparr>\<rparr>"
  by (rule constructor_part_000_eq [OF vertexData_triangleMesh])

lemma onInitialize_main_b_triangleMesh:
  "onInitialize_main_b triangleMesh s =
     Inr (s\<lparr>modelNode_opt := Some
            \<lparr>node_model = model_ico triangleMesh
               [0, 0, 0, 0, 0, 1,  1, 0, 0, 0, 0, 1,  0, 1, 0, 0, 0, 1],
             managedResources = [ [0, 0, 0, 0, 0, 1,  1, 0, 0, 0, 0, 1,  0, 1, 0, 0, 0, 1]]\<rparr>\<rparr>)"
  by (simp add: onInitialize_main_b_def vertexData_triangleMesh)

subsection \<open>The animation the constructors configure\<close>

text \<open>
  C2. The first tetrahedron demo attaches a track with keyframes \<open>[(0, 0), (2000, 2 \<pi>)]\<close>
  to a channel of duration 2000 that repeats forever. Advancing its timeline by 1000 ms
  from the start leaves the track interpolating to \<open>\<pi>\<close>, within \<open>10\<^sup>-\<^sup>6\<close>: by the
  accessors, by \<open>evaluate\<close> at the channel's position, and as the angle \<open>rotationX\<close> of
  the next frame.
\<close>

theorem advance_1000_interpolates_pi:
  "case constructor_main of
     Inl e \<Rightarrow> False
   | Inr s \<Rightarrow>
       (let tline = advance (timeline s) 1000;
            kf = track tline (keyFramesX s)
        in durationMs (channelOf tline (keyFramesX s)) = 2000 \<and>
           repeatCount (channelOf tline (keyFramesX s)) = Forever \<and>
           keyTimes kf = [0, 2000] \<and> keyValues kf = [0, 2 * pi] \<and>
           \<bar>interpolated kf - pi\<bar> \<le> 1 / 1000000 \<and>
           \<bar>evaluate kf (cyclePosition (channelOf tline (keyFramesX s))) - pi\<bar>
             \<le> 1 / 1000000 \<and>
           \<bar>rotationX (step onRender_main s (Tick 1000)) - pi\<bar> \<le> 1 / 1000000)"
  by (simp add: constructor_main_def timeline_tetra_eq Let_def rotationX_def track_def
      advance_def advanceChannel_def initialChannel_def initialTrack_def setTime_def fmod_def
      getStartData_def getEndData_def evaluate_def interpolated_def channelOf_def)

text \<open>
  C6, amended. In every demo configuration each rotation track's keyframes run from
  value \<open>0\<close> at time \<open>0\<close> to value \<open>2 \<pi>\<close> at a time equal to the owning channel's
  duration multiplied by its rate: 2000 at rate 1, \<open>2000 / 0.7\<close> at rate \<open>0.7\<close>, and 5000
  at rate 1. The configurations are those the four constructors build, the icosphere
  on any mesh the constructor accepts.
\<close>

theorem keyframes_span_duration_times_rate:
  "(case constructor_main of
      Inl e \<Rightarrow> False
    | Inr s \<Rightarrow>
        cycleIsFullTurn (timeline s) (keyFramesX s) \<and>
        durationMs (channelOf (timeline s) (keyFramesX s)) = 2000 \<and>
        rate (channelOf (timeline s) (keyFramesX s)) = 1 \<and>
        cycleIsFullTurn (timeline s) (keyFramesY s) \<and>
        durationMs (channelOf (timeline s) (keyFramesY s)) = 2000 / (7 / 10) \<and>
        rate (channelOf (timeline s) (keyFramesY s)) = 7 / 10) \<and>
   (case constructor_part_001 of
      Inl e \<Rightarrow> False
    | Inr s \<Rightarrow>
        cycleIsFullTurn (timeline s) (keyFramesX s) \<and>
        durationMs (channelOf (timeline s) (keyFramesX s)) = 2000 \<and>
        rate (channelOf (timeline s) (keyFramesX s)) = 1 \<and>
        cycleIsFullTurn (timeline s) (keyFramesY s) \<and>
        durationMs (channelOf (timeline s) (keyFramesY s)) = 2000 / (7 / 10) \<and>
        rate (channelOf (timeline s) (keyFramesY s)) = 7 / 10) \<and>
   (case constructor_main_b of
      Inl e \<Rightarrow> False
    | Inr s \<Rightarrow>
        cycleIsFullTurn (timeline s) (rotationKeyFrames s) \<and>
        durationMs (channelOf (timeline s) (rotationKeyFrames s)) = 5000 \<and>
        rate (channelOf (timeline s) (rotationKeyFrames s)) = 1) \<and>
   (case constructor_part_000 mesh of
      Inl e \<Rightarrow> True
    | Inr s \<Rightarrow>
        cycleIsFullTurn (timeline s) (rotationKeyFrames s) \<and>
        durationMs (channelOf (timeline s) (rotationKeyFrames s)) = 5000 \<and>
        rate (channelOf (timeline s) (rotationKeyFrames s)) = 1)"
proof -
  have tetra:
    "cycleIsFullTurn initialTimeline_tetra 0"
    "durationMs (channelOf initialTimeline_tetra 0) = 2000"
    "rate (channelOf initialTimeline_tetra 0) = 1"
    "cycleIsFullTurn initialTimeline_tetra 1"
    "durationMs (channelOf initialTimeline_tetra 1) = 2000 / (7 / 10)"
    "rate (channelOf initialTimeline_tetra 1) = 7 / 10"
    by (simp_all add: initialTimeline_tetra_def track_def channelOf_def initialTrack_def
        initialChannel_def runsTo_def cycleIsFullTurn_def)
  have ico:
    "cycleIsFullTurn initialTimeline_ico 0"
    "durationMs (channelOf initialTimeline_ico 0) = 5000"
    "rate (channelOf initialTimeline_ico 0) = 1"
    by (simp_all add: initialTimeline_ico_def track_def channelOf_def initialTrack_def
        initialChannel_def runsTo_def cycleIsFullTurn_def)
  have part_000: "timeline s = initialTimeline_ico \<and> rotationKeyFrames s = 0"
    if "constructor_part_000 mesh = Inr s" for s
    using constructor_part_000_Inr [OF that] by auto
  show ?thesis
    using tetra ico part_000
    by (simp add: constructor_main_eq constructor_part_001_eq constructor_main_b_eq
        split: sum.split)
qed

text \<open>The icosphere demo on the mesh of one triangle, which its constructor accepts.\<close>

theorem keyframes_span_duration_times_rate_witness:
  "case constructor_part_000 triangleMesh of
     Inl e \<Rightarrow> False
   | Inr s \<Rightarrow>
       cycleIsFullTurn (timeline s) (rotationKeyFrames s) \<and>
       durationMs (channelOf (timeline s) (rotationKeyFrames s)) = 5000 \<and>
       rate (channelOf (timeline s) (rotationKeyFrames s)) = 1"
  using keyframes_span_duration_times_rate [where mesh = triangleMesh]
  by (simp add: constructor_part_000_triangleMesh)

text \<open>
  C6, as worded, fails on the channel at rate \<open>0.7\<close> of the first tetrahedron demo:
  its track's keyframes end at time 2000 and the channel's duration is \<open>2000 / 0.7\<close>.
\<close>

theorem channelY_keyframes_end_before_duration:
  "\<not> isl constructor_main \<and>
   last (keyTimes (track (timeline (projr constructor_main))
                     (keyFramesY (projr constructor_main)))) = 2000 \<and>
   durationMs (channelOf (timeline (projr constructor_main))
                 (keyFramesY (projr constructor_main))) = 2000 / (7 / 10) \<and>
   rate (channelOf (timeline (projr constructor_main))
           (keyFramesY (projr constructor_main))) = 7 / 10 \<and>
   \<not> spec_cycleIsFullTurn (timeline (projr constructor_main))
        (keyFramesY (projr constructor_main))"
  by (simp add: constructor_main_eq initialTimeline_tetra_def track_def channelOf_def
      initialTrack_def initialChannel_def runsTo_def spec_cycleIsFullTurn_def)

subsection \<open>Runs\<close>

lemma frames_Nil: "frames r s [] = s"
  by (simp add: frames_def)

lemma frames_Cons: "frames r s (e # es) = frames r (step r s e) es"
  by (simp add: frames_def)

lemma frames_invariant:
  assumes "P s" and "\<And>s e. P s \<Longrightarrow> P (step r s e)"
  shows "P (frames r s events)"
  using assms(1)
proof (induction events arbitrary: s)
  case Nil
  then show ?case by (simp add: frames_Nil)
next
  case (Cons e es)
  then show ?case by (simp add: frames_Cons assms(2))
qed

lemma onRender_main_same: "sameAnimationState s (onRender_main s aspect)"
  by (simp add: sameAnimationState_def onRender_main_def Let_def)

lemma onRender_part_001_same: "sameAnimationState s (onRender_part_001 s aspect)"
  by (simp add: sameAnimationState_def onRender_part_001_def Let_def)

lemma onRender_part_000_same: "sameAnimationState s (onRender_part_000 s aspect)"
  by (simp add: sameAnimationState_def onRender_part_000_def Let_def)

lemma onRender_main_b_same: "sameAnimationState s (onRender_main_b s aspect)"
  by (simp add: sameAnimationState_def onRender_main_b_def Let_def)

lemma onInitialize_main_b_same:
  "onInitialize_main_b mesh s = Inr s' \<Longrightarrow> sameAnimationState s s'"
  by (auto simp add: sameAnimationState_def onInitialize_main_b_def split: sum.splits)

lemma step_cameraAndLight:
  assumes "\<And>s aspect. sameAnimationState s (r s aspect)"
  shows "cameraAndLight s eye light \<Longrightarrow> cameraAndLight (step r s e) eye light"
  using assms [of s] by (cases e) (auto simp add: cameraAndLight_def sameAnimationState_def)

lemma frames_cameraAndLight:
  assumes "\<And>s aspect. sameAnimationState s (r s aspect)" and "cameraAndLight s eye light"
  shows "cameraAndLight (frames r s events) eye light"
  by (rule frames_invariant [where P = "\<lambda>s. cameraAndLight s eye light"])
     (simp_all add: assms step_cameraAndLight)

lemma cameraAndLight_main:
  "constructor_main = Inr s0 \<Longrightarrow>
   cameraAndLight (frames onRender_main s0 events) eyePosition_tetra lightPosition_tetra"
  by (intro frames_cameraAndLight onRender_main_same)
     (auto simp add: constructor_main_eq cameraAndLight_def)

lemma cameraAndLight_part_001:
  "constructor_part_001 = Inr s0 \<Longrightarrow>
   cameraAndLight (frames onRender_part_001 s0 events) eyePosition_tetra lightPosition_tetra"
  by (intro frames_cameraAndLight onRender_part_001_same)
     (auto simp add: constructor_part_001_eq cameraAndLight_def)

lemma cameraAndLight_main_b:
  "constructor_main_b = Inr s0 \<Longrightarrow>
   cameraAndLight (frames onRender_main_b s0 events) eyePosition_ico lightPosition_ico"
  by (intro frames_cameraAndLight onRender_main_b_same)
     (auto simp add: constructor_main_b_eq cameraAndLight_def)

lemma cameraAndLight_part_000:
  "constructor_part_000 mesh = Inr s0 \<Longrightarrow>
   cameraAndLight (frames onRender_part_000 s0 events) eyePosition_ico lightPosition_ico"
  using constructor_part_000_Inr [of mesh s0]
  by (intro frames_cameraAndLight onRender_part_000_same)
     (auto simp add: cameraAndLight_def)

lemma cameraAndLight_after_onInitialize:
  assumes "constructor_main_b = Inr s0"
    and "onInitialize_main_b mesh (frames onRender_main_b s0 events) = Inr s'"
  shows "cameraAndLight (frames onRender_main_b s' events') eyePosition_ico lightPosition_ico"
proof (intro frames_cameraAndLight onRender_main_b_same)
  show "cameraAndLight s' eyePosition_ico lightPosition_ico"
    using cameraAndLight_main_b [OF assms(1), of events] onInitialize_main_b_same [OF assms(2)]
    by (simp add: cameraAndLight_def sameAnimationState_def)
qed

subsection \<open>The rotation angles\<close>



lemma rotationY_interpolated_when_starts_agree:
  "getStartData (track (timeline s) (keyFramesX s)) =
     getStartData (track (timeline s) (keyFramesY s)) \<Longrightarrow>
   rotationY s = interpolated (track (timeline s) (keyFramesY s))"
  by (simp add: rotationY_def interpolated_def Let_def)








text \<open>
  The Y angle depends on the two tracks starting at the same value. On a timeline whose
  tracks are in different segments, which no run of the demos reaches with the
  two-keyframe data they are built from, the expression of the sources and the formula
  over the Y track differ: with the X track reporting start \<open>\<pi> / 2\<close> and the Y track
  reporting start \<open>0\<close>, end \<open>\<pi> / 2\<close> and factor \<open>0.84\<close>, the expression gives \<open>0\<close> and
  the formula \<open>0.42 \<pi>\<close>.
\<close>

lemma timeline_segments_eq:
  "timeline_segments =
     \<lparr>channels =
        [(initialChannel 2000 1)\<lparr>elapsedMs := 1200, cyclePosition := 1200\<rparr>,
         (initialChannel (2000 / (7 / 10)) (7 / 10))\<lparr>elapsedMs := 840, cyclePosition := 840\<rparr>],
      animations =
        [(\<lparr>keyTimes = [0, 1000, 2000], keyValues = [0, pi / 2, 2 * pi],
           startIndex = 1, endIndex = 2, factor = 1 / 5\<rparr>, 0),
         (\<lparr>keyTimes = [0, 1000, 2000], keyValues = [0, pi / 2, 2 * pi],
           startIndex = 0, endIndex = 1, factor = 21 / 25\<rparr>, 1)],
      playing = True\<rparr>"
  by (simp add: timeline_segments_def timeline_tetra_with_def keyFrameData_three_def
      new_KeyFrames_def setTime_def addChannel_def new_Timeline_def attachAnimation_def
      play_def advance_def advanceChannel_def fmod_def initialChannel_def Let_def)

lemma rotationY_subtracts_startRotationX:
  "report (track timeline_segments 0) = (pi / 2, 2 * pi, 1 / 5) \<and>
   report (track timeline_segments 1) = (0, pi / 2, 21 / 25) \<and>
   rotationY (s\<lparr>timeline := timeline_segments, keyFramesX := 0, keyFramesY := 1\<rparr>) = 0 \<and>
   interpolated (track timeline_segments 1) = 21 / 50 * pi \<and>
   rotationX (s\<lparr>timeline := timeline_segments, keyFramesX := 0, keyFramesY := 1\<rparr>) =
     interpolated (track timeline_segments 0)"
  by (simp add: rotationY_def rotationX_def interpolated_def report_def timeline_segments_eq
      track_def getStartData_def getEndData_def Let_def)

subsection \<open>Camera, light and animation state across frames\<close>

text \<open>
  C3. In every demo the view matrix and the camera-space light position are those the
  constructor computed, the light position being \<open>lightPosition\<close> transformed by the
  view matrix as a point, after any run of timeline ticks and frames (and, in the demo
  with \<^verbatim>\<open>onInitialize\<close>, also after it has run). No frame changes the view matrix, the light
  uniform, the timeline with its tracks, or the references to the tracks, so a frame can
  be rendered again on the same animation state.
\<close>

theorem view_and_light_computed_once:
  "(case constructor_main of
      Inl e \<Rightarrow> False
    | Inr s0 \<Rightarrow>
        cameraAndLight (frames onRender_main s0 events) eyePosition_tetra lightPosition_tetra) \<and>
   sameAnimationState s (onRender_main s aspect) \<and>
   keyFramesX (onRender_main s aspect) = keyFramesX s \<and>
   keyFramesY (onRender_main s aspect) = keyFramesY s \<and>
   (case constructor_part_001 of
      Inl e \<Rightarrow> False
    | Inr s0 \<Rightarrow>
        cameraAndLight (frames onRender_part_001 s0 events) eyePosition_tetra
          lightPosition_tetra) \<and>
   sameAnimationState s1 (onRender_part_001 s1 aspect) \<and>
   keyFramesX (onRender_part_001 s1 aspect) = keyFramesX s1 \<and>
   keyFramesY (onRender_part_001 s1 aspect) = keyFramesY s1 \<and>
   (case constructor_main_b of
      Inl e \<Rightarrow> False
    | Inr s0 \<Rightarrow>
        cameraAndLight (frames onRender_main_b s0 events) eyePosition_ico lightPosition_ico \<and>
        (case onInitialize_main_b mesh (frames onRender_main_b s0 events) of
           Inl e \<Rightarrow> True
         | Inr s' \<Rightarrow>
             cameraAndLight (frames onRender_main_b s' events') eyePosition_ico
               lightPosition_ico)) \<and>
   sameAnimationState s2 (onRender_main_b s2 aspect) \<and>
   rotationKeyFrames (onRender_main_b s2 aspect) = rotationKeyFrames s2 \<and>
   (case constructor_part_000 mesh of
      Inl e \<Rightarrow> True
    | Inr s0 \<Rightarrow>
        cameraAndLight (frames onRender_part_000 s0 events) eyePosition_ico lightPosition_ico) \<and>
   sameAnimationState s3 (onRender_part_000 s3 aspect) \<and>
   rotationKeyFrames (onRender_part_000 s3 aspect) = rotationKeyFrames s3"
proof -
  have refs: "keyFramesX (onRender_main s aspect) = keyFramesX s"
    "keyFramesY (onRender_main s aspect) = keyFramesY s"
    "keyFramesX (onRender_part_001 s1 aspect) = keyFramesX s1"
    "keyFramesY (onRender_part_001 s1 aspect) = keyFramesY s1"
    "rotationKeyFrames (onRender_main_b s2 aspect) = rotationKeyFrames s2"
    "rotationKeyFrames (onRender_part_000 s3 aspect) = rotationKeyFrames s3"
    by (simp_all add: onRender_main_writes onRender_part_001_writes onRender_main_b_writes
        onRender_part_000_writes)
  show ?thesis
    using cameraAndLight_main [of _ events] cameraAndLight_part_001 [of _ events]
      cameraAndLight_main_b [of _ events] cameraAndLight_part_000 [of mesh _ events]
      cameraAndLight_after_onInitialize [of _ mesh events _ events']
    by (auto simp add: refs onRender_main_same onRender_part_001_same onRender_main_b_same
        onRender_part_000_same constructor_main_eq constructor_part_001_eq
        constructor_main_b_eq split: sum.splits)
qed

text \<open>
  The same on runs of two ticks and two frames, with the icosphere demos on the mesh of
  one triangle, where the constructor and \<^verbatim>\<open>onInitialize\<close> succeed.
\<close>

theorem view_and_light_computed_once_witness:
  "(case constructor_main of
      Inl e \<Rightarrow> False
    | Inr s0 \<Rightarrow>
        cameraAndLight (frames onRender_main s0 [Tick 16, Render 2, Tick 16, Render 2])
          eyePosition_tetra lightPosition_tetra \<and>
        sameAnimationState s0 (onRender_main s0 2)) \<and>
   (case constructor_main_b of
      Inl e \<Rightarrow> False
    | Inr s0 \<Rightarrow>
        (case onInitialize_main_b triangleMesh (frames onRender_main_b s0 [Tick 16, Render 2]) of
           Inl e \<Rightarrow> False
         | Inr s' \<Rightarrow>
             cameraAndLight (frames onRender_main_b s' [Tick 16, Render 2]) eyePosition_ico
               lightPosition_ico)) \<and>
   (case constructor_part_000 triangleMesh of
      Inl e \<Rightarrow> False
    | Inr s0 \<Rightarrow>
        cameraAndLight (frames onRender_part_000 s0 [Tick 16, Render 2]) eyePosition_ico
          lightPosition_ico)"
proof -
  obtain s0 where s0: "constructor_main = Inr s0"
    using constructor_main_eq by simp
  have vd: "vertexData_ico triangleMesh =
      Inr [0, 0, 0, 0, 0, 1,  1, 0, 0, 0, 0, 1,  0, 1, 0, 0, 0, 1]"
    by (rule vertexData_triangleMesh)
  show ?thesis
    using view_and_light_computed_once
        [where events = "[Tick 16, Render 2, Tick 16, Render 2]" and s = s0 and aspect = 2,
         THEN conjunct1]
      view_and_light_computed_once [where s = s0 and aspect = 2, THEN conjunct2, THEN conjunct1]
      view_and_light_computed_once
        [where events = "[Tick 16, Render 2]" and mesh = triangleMesh
           and events' = "[Tick 16, Render 2]"]
    by (simp add: s0 constructor_main_b_eq constructor_part_000_triangleMesh
        onInitialize_main_b_def vd)
qed

subsection \<open>Rotation by zero\<close>

lemma zero_rotation_main:
  "cameraAndLight a eye light \<Longrightarrow> rotationX a = 0 \<Longrightarrow> rotationY a = 0 \<Longrightarrow>
   map_option u_mvMatrix (app (uniformStore (onRender_main a aspect))) =
     Some (lookAt identity eye)"
  by (simp add: onRender_main_writes rotateXYZ_zero cameraAndLight_def)

lemma zero_rotation_part_001:
  "cameraAndLight b eye light \<Longrightarrow> rotationX b = 0 \<Longrightarrow> rotationY b = 0 \<Longrightarrow>
   map_option u_modelViewMatrix (app (uniformStore (onRender_part_001 b aspect))) =
     Some (lookAt identity eye)"
  by (simp add: onRender_part_001_writes rotateXYZ_zero cameraAndLight_def)

lemma zero_rotation_part_000:
  "cameraAndLight c eye light \<Longrightarrow> rotation c = 0 \<Longrightarrow>
   map_option u_modelViewMatrix (app (uniformStore (onRender_part_000 c aspect))) =
     Some (lookAt identity eye)"
  by (simp add: onRender_part_000_writes rotateY_zero cameraAndLight_def)

lemma zero_rotation_main_b:
  "cameraAndLight d eye light \<Longrightarrow> rotation d = 0 \<Longrightarrow>
   map_option u_modelViewMatrix (app (uniformStore (onRender_main_b d aspect))) =
     Some (lookAt identity eye)"
  by (simp add: onRender_main_b_writes rotateY_zero cameraAndLight_def)

text \<open>
  C5. In every demo, in a frame whose rotation angles are all \<open>0\<close>, the model-view
  matrix the frame uploads is the look-at matrix built from the eye position. The frame
  is any frame of any run of the demo from its constructor on; in the demo with
  \<^verbatim>\<open>onInitialize\<close>, also of any run that goes through it.
\<close>

theorem zero_rotation_gives_view_matrix:
  "(constructor_main = Inr a0 \<and> a = frames onRender_main a0 events \<and>
    rotationX a = 0 \<and> rotationY a = 0 \<longrightarrow>
      map_option u_mvMatrix (app (uniformStore (onRender_main a aspect))) =
        Some (lookAt identity eyePosition_tetra)) \<and>
   (constructor_part_001 = Inr b0 \<and> b = frames onRender_part_001 b0 events \<and>
    rotationX b = 0 \<and> rotationY b = 0 \<longrightarrow>
      map_option u_modelViewMatrix (app (uniformStore (onRender_part_001 b aspect))) =
        Some (lookAt identity eyePosition_tetra)) \<and>
   (constructor_part_000 mesh = Inr c0 \<and> c = frames onRender_part_000 c0 events \<and>
    rotation c = 0 \<longrightarrow>
      map_option u_modelViewMatrix (app (uniformStore (onRender_part_000 c aspect))) =
        Some (lookAt identity eyePosition_ico)) \<and>
   (constructor_main_b = Inr d0 \<and> d = frames onRender_main_b d0 events \<and>
    rotation d = 0 \<longrightarrow>
      map_option u_modelViewMatrix (app (uniformStore (onRender_main_b d aspect))) =
        Some (lookAt identity eyePosition_ico)) \<and>
   (constructor_main_b = Inr d0 \<and>
    onInitialize_main_b mesh (frames onRender_main_b d0 events) = Inr d1 \<and>
    d' = frames onRender_main_b d1 events' \<and> rotation d' = 0 \<longrightarrow>
      map_option u_modelViewMatrix (app (uniformStore (onRender_main_b d' aspect))) =
        Some (lookAt identity eyePosition_ico))"
proof (intro conjI impI; elim conjE)
  assume h: "constructor_main = Inr a0" "a = frames onRender_main a0 events"
    "rotationX a = 0" "rotationY a = 0"
  show "map_option u_mvMatrix (app (uniformStore (onRender_main a aspect))) =
      Some (lookAt identity eyePosition_tetra)"
    by (rule zero_rotation_main [OF _ h(3) h(4), of _ lightPosition_tetra])
       (simp add: h(2) cameraAndLight_main [OF h(1)])
next
  assume h: "constructor_part_001 = Inr b0" "b = frames onRender_part_001 b0 events"
    "rotationX b = 0" "rotationY b = 0"
  show "map_option u_modelViewMatrix (app (uniformStore (onRender_part_001 b aspect))) =
      Some (lookAt identity eyePosition_tetra)"
    by (rule zero_rotation_part_001 [OF _ h(3) h(4), of _ lightPosition_tetra])
       (simp add: h(2) cameraAndLight_part_001 [OF h(1)])
next
  assume h: "constructor_part_000 mesh = Inr c0" "c = frames onRender_part_000 c0 events"
    "rotation c = 0"
  show "map_option u_modelViewMatrix (app (uniformStore (onRender_part_000 c aspect))) =
      Some (lookAt identity eyePosition_ico)"
    by (rule zero_rotation_part_000 [OF _ h(3), of _ lightPosition_ico])
       (simp add: h(2) cameraAndLight_part_000 [OF h(1)])
next
  assume h: "constructor_main_b = Inr d0" "d = frames onRender_main_b d0 events"
    "rotation d = 0"
  show "map_option u_modelViewMatrix (app (uniformStore (onRender_main_b d aspect))) =
      Some (lookAt identity eyePosition_ico)"
    by (rule zero_rotation_main_b [OF _ h(3), of _ lightPosition_ico])
       (simp add: h(2) cameraAndLight_main_b [OF h(1)])
next
  assume h: "constructor_main_b = Inr d0"
    "onInitialize_main_b mesh (frames onRender_main_b d0 events) = Inr d1"
    "d' = frames onRender_main_b d1 events'" "rotation d' = 0"
  show "map_option u_modelViewMatrix (app (uniformStore (onRender_main_b d' aspect))) =
      Some (lookAt identity eyePosition_ico)"
    by (rule zero_rotation_main_b [OF _ h(4), of _ lightPosition_ico])
       (simp add: h(3) cameraAndLight_after_onInitialize [OF h(1) h(2)])
qed

text \<open>
  At the start of every demo the tracks are at their first keyframe and the angles are
  \<open>0\<close>: the second frame of a run without ticks, the icosphere on the mesh of one
  triangle.
\<close>

lemma initial_rotations:
  "timeline s = initialTimeline_tetra \<Longrightarrow> keyFramesX s = 0 \<Longrightarrow> keyFramesY s = 1 \<Longrightarrow>
   rotationX s = 0 \<and> rotationY s = 0"
  by (simp add: rotationX_def rotationY_def initialTimeline_tetra_def track_def
      initialTrack_def getStartData_def getEndData_def Let_def)

lemma initial_rotation:
  "timeline s = initialTimeline_ico \<Longrightarrow> rotationKeyFrames s = 0 \<Longrightarrow> rotation s = 0"
  by (simp add: rotation_def initialTimeline_ico_def track_def
      initialTrack_def getStartData_def getEndData_def Let_def)

theorem zero_rotation_gives_view_matrix_witness:
  "(case constructor_main of
      Inl e \<Rightarrow> False
    | Inr a0 \<Rightarrow>
        rotationX (frames onRender_main a0 [Render 2]) = 0 \<and>
        rotationY (frames onRender_main a0 [Render 2]) = 0 \<and>
        map_option u_mvMatrix
          (app (uniformStore (onRender_main (frames onRender_main a0 [Render 2]) 1))) =
          Some (lookAt identity eyePosition_tetra)) \<and>
   (case constructor_part_001 of
      Inl e \<Rightarrow> False
    | Inr b0 \<Rightarrow>
        rotationX (frames onRender_part_001 b0 [Render 2]) = 0 \<and>
        rotationY (frames onRender_part_001 b0 [Render 2]) = 0 \<and>
        map_option u_modelViewMatrix
          (app (uniformStore (onRender_part_001 (frames onRender_part_001 b0 [Render 2]) 1))) =
          Some (lookAt identity eyePosition_tetra)) \<and>
   (case constructor_part_000 triangleMesh of
      Inl e \<Rightarrow> False
    | Inr c0 \<Rightarrow>
        rotation (frames onRender_part_000 c0 [Render 2]) = 0 \<and>
        map_option u_modelViewMatrix
          (app (uniformStore (onRender_part_000 (frames onRender_part_000 c0 [Render 2]) 1))) =
          Some (lookAt identity eyePosition_ico)) \<and>
   (case constructor_main_b of
      Inl e \<Rightarrow> False
    | Inr d0 \<Rightarrow>
        rotation (frames onRender_main_b d0 [Render 2]) = 0 \<and>
        map_option u_modelViewMatrix
          (app (uniformStore (onRender_main_b (frames onRender_main_b d0 [Render 2]) 1))) =
          Some (lookAt identity eyePosition_ico) \<and>
        (case onInitialize_main_b triangleMesh (frames onRender_main_b d0 [Render 2]) of
           Inl e \<Rightarrow> False
         | Inr d1 \<Rightarrow>
             rotation (frames onRender_main_b d1 [Render 2]) = 0 \<and>
             map_option u_modelViewMatrix
               (app (uniformStore
                  (onRender_main_b (frames onRender_main_b d1 [Render 2]) 1))) =
               Some (lookAt identity eyePosition_ico)))"
proof -
  obtain a0 where a0: "constructor_main = Inr a0"
    and a0': "timeline a0 = initialTimeline_tetra" "keyFramesX a0 = 0" "keyFramesY a0 = 1"
    using constructor_main_eq by simp
  obtain b0 where b0: "constructor_part_001 = Inr b0"
    and b0': "timeline b0 = initialTimeline_tetra" "keyFramesX b0 = 0" "keyFramesY b0 = 1"
    using constructor_part_001_eq by simp
  obtain c0 where c0: "constructor_part_000 triangleMesh = Inr c0"
    and c0': "timeline c0 = initialTimeline_ico" "rotationKeyFrames c0 = 0"
    using constructor_part_000_triangleMesh by simp
  obtain d0 where d0: "constructor_main_b = Inr d0"
    and d0': "timeline d0 = initialTimeline_ico" "rotationKeyFrames d0 = 0"
    using constructor_main_b_eq by simp
  obtain d1 where d1:
    "onInitialize_main_b triangleMesh (frames onRender_main_b d0 [Render 2]) = Inr d1"
    and d1': "timeline d1 = initialTimeline_ico" "rotationKeyFrames d1 = 0"
    using onInitialize_main_b_triangleMesh [of "frames onRender_main_b d0 [Render 2]"] d0'
    by (simp add: frames_Cons frames_Nil onRender_main_b_writes)
  have ra: "rotationX (frames onRender_main a0 [Render 2]) = 0 \<and>
            rotationY (frames onRender_main a0 [Render 2]) = 0"
    by (rule initial_rotations) (simp_all add: frames_Cons frames_Nil onRender_main_writes a0')
  have rb: "rotationX (frames onRender_part_001 b0 [Render 2]) = 0 \<and>
            rotationY (frames onRender_part_001 b0 [Render 2]) = 0"
    by (rule initial_rotations) (simp_all add: frames_Cons frames_Nil onRender_part_001_writes b0')
  have rc: "rotation (frames onRender_part_000 c0 [Render 2]) = 0"
    by (rule initial_rotation) (simp_all add: frames_Cons frames_Nil onRender_part_000_writes c0')
  have rd: "rotation (frames onRender_main_b d0 [Render 2]) = 0"
    by (rule initial_rotation) (simp_all add: frames_Cons frames_Nil onRender_main_b_writes d0')
  have re: "rotation (frames onRender_main_b d1 [Render 2]) = 0"
    by (rule initial_rotation) (simp_all add: frames_Cons frames_Nil onRender_main_b_writes d1')
  show ?thesis
    using zero_rotation_gives_view_matrix
      [where ?a0.0 = a0 and a = "frames onRender_main a0 [Render 2]"
         and ?b0.0 = b0 and b = "frames onRender_part_001 b0 [Render 2]"
         and ?c0.0 = c0 and c = "frames onRender_part_000 c0 [Render 2]"
         and ?d0.0 = d0 and d = "frames onRender_main_b d0 [Render 2]"
         and ?d1.0 = d1 and d' = "frames onRender_main_b d1 [Render 2]"
         and events = "[Render 2]" and events' = "[Render 2]"
         and mesh = triangleMesh and aspect = 1]
      ra rb rc rd re
    by (simp add: a0 b0 c0 d0 d1)
qed

subsection \<open>Rasterization state and draw calls\<close>

text \<open>
  C7, amended. Every demo builds its model with back-face culling, depth writes enabled
  and the depth comparison \<open>less-equal\<close>. A frame of the demos that build the model in
  the constructor issues exactly one draw call, over that model, between the beginning
  and the end of its render pass, and leaves the model as it is. A frame of the demo
  that builds its model node in \<^verbatim>\<open>onInitialize\<close> issues one draw call when the node
  exists and none when it does not.
\<close>

theorem one_draw_when_model_exists:
  "(case constructor_main of
      Inl e \<Rightarrow> False
    | Inr s \<Rightarrow> parameters (model s) = fixedRasterizationState) \<and>
   (case constructor_part_001 of
      Inl e \<Rightarrow> False
    | Inr s \<Rightarrow> parameters (model s) = fixedRasterizationState) \<and>
   (case constructor_part_000 mesh of
      Inl e \<Rightarrow> True
    | Inr s \<Rightarrow> parameters (node_model (modelNode s)) = fixedRasterizationState) \<and>
   (case onInitialize_main_b mesh d0 of
      Inl e \<Rightarrow> True
    | Inr s \<Rightarrow>
        map_option (\<lambda>node. parameters (node_model node)) (modelNode_opt s) =
          Some fixedRasterizationState) \<and>
   commands (onRender_main a aspect) =
     commands a @ [BeginRenderPass [1, 1, 1, 1], Draw (model a), EndRenderPass] \<and>
   drawCalls (commands (onRender_main a aspect)) = drawCalls (commands a) + 1 \<and>
   model (onRender_main a aspect) = model a \<and>
   commands (onRender_part_001 b aspect) =
     commands b @ [BeginRenderPass [1, 1, 1, 1], Draw (model b), EndRenderPass] \<and>
   drawCalls (commands (onRender_part_001 b aspect)) = drawCalls (commands b) + 1 \<and>
   model (onRender_part_001 b aspect) = model b \<and>
   commands (onRender_part_000 c aspect) =
     commands c @
       [BeginRenderPass [1, 1, 1, 1], Draw (node_model (modelNode c)), EndRenderPass] \<and>
   drawCalls (commands (onRender_part_000 c aspect)) = drawCalls (commands c) + 1 \<and>
   modelNode (onRender_part_000 c aspect) = modelNode c \<and>
   commands (onRender_main_b d aspect) =
     commands d @ [BeginRenderPass [1, 1, 1, 1]] @
       (case modelNode_opt d of None \<Rightarrow> [] | Some node \<Rightarrow> [Draw (node_model node)]) @
       [EndRenderPass] \<and>
   drawCalls (commands (onRender_main_b d aspect)) =
     drawCalls (commands d) + (case modelNode_opt d of None \<Rightarrow> 0 | Some node \<Rightarrow> 1) \<and>
   modelNode_opt (onRender_main_b d aspect) = modelNode_opt d"
proof -
  have built:
    "parameters model_main = fixedRasterizationState"
    "parameters model_part_001 = fixedRasterizationState"
    "parameters (model_ico mesh vertexData) = fixedRasterizationState" for vertexData
    by (simp_all add: model_main_def model_part_001_def model_ico_def
        fixedRasterizationState_def)
  have part_000: "parameters (node_model (modelNode s)) = fixedRasterizationState"
    if "constructor_part_000 mesh = Inr s" for s
    using constructor_part_000_Inr [OF that] built(3) by auto
  have main_b: "map_option (\<lambda>node. parameters (node_model node)) (modelNode_opt s) =
      Some fixedRasterizationState"
    if "onInitialize_main_b mesh d0 = Inr s" for s
    using that built(3) by (auto simp add: onInitialize_main_b_def split: sum.splits)
  have frames:
    "commands (onRender_main a aspect) =
       commands a @ [BeginRenderPass [1, 1, 1, 1], Draw (model a), EndRenderPass]"
    "model (onRender_main a aspect) = model a"
    "commands (onRender_part_001 b aspect) =
       commands b @ [BeginRenderPass [1, 1, 1, 1], Draw (model b), EndRenderPass]"
    "model (onRender_part_001 b aspect) = model b"
    "commands (onRender_part_000 c aspect) =
       commands c @
         [BeginRenderPass [1, 1, 1, 1], Draw (node_model (modelNode c)), EndRenderPass]"
    "modelNode (onRender_part_000 c aspect) = modelNode c"
    "commands (onRender_main_b d aspect) =
       commands d @ [BeginRenderPass [1, 1, 1, 1]] @
         (case modelNode_opt d of None \<Rightarrow> [] | Some node \<Rightarrow> [Draw (node_model node)]) @
         [EndRenderPass]"
    "modelNode_opt (onRender_main_b d aspect) = modelNode_opt d"
    by (simp_all add: onRender_main_writes onRender_part_001_writes onRender_part_000_writes
        onRender_main_b_writes)
  have draws:
    "drawCalls (commands (onRender_main a aspect)) = drawCalls (commands a) + 1"
    "drawCalls (commands (onRender_part_001 b aspect)) = drawCalls (commands b) + 1"
    "drawCalls (commands (onRender_part_000 c aspect)) = drawCalls (commands c) + 1"
    "drawCalls (commands (onRender_main_b d aspect)) =
       drawCalls (commands d) + (case modelNode_opt d of None \<Rightarrow> 0 | Some node \<Rightarrow> 1)"
    by (simp_all add: frames(1,3,5,7) drawCalls_def split: option.split)
  have constructed:
    "case constructor_main of
       Inl e \<Rightarrow> False
     | Inr s \<Rightarrow> parameters (model s) = fixedRasterizationState"
    "case constructor_part_001 of
       Inl e \<Rightarrow> False
     | Inr s \<Rightarrow> parameters (model s) = fixedRasterizationState"
    "case constructor_part_000 mesh of
       Inl e \<Rightarrow> True
     | Inr s \<Rightarrow> parameters (node_model (modelNode s)) = fixedRasterizationState"
    "case onInitialize_main_b mesh d0 of
       Inl e \<Rightarrow> True
     | Inr s \<Rightarrow>
         map_option (\<lambda>node. parameters (node_model node)) (modelNode_opt s) =
           Some fixedRasterizationState"
    using part_000 main_b
    by (simp_all add: built constructor_main_eq constructor_part_001_eq split: sum.split)
  show ?thesis
    by (intro conjI) (rule constructed frames draws)+
qed

text \<open>
  The icosphere demos on the mesh of one triangle: the constructor of the one and
  \<^verbatim>\<open>onInitialize\<close> of the other succeed, and the first frame after \<^verbatim>\<open>onInitialize\<close>
  issues one draw call.
\<close>

theorem one_draw_when_model_exists_witness:
  "(case constructor_part_000 triangleMesh of
      Inl e \<Rightarrow> False
    | Inr s \<Rightarrow> parameters (node_model (modelNode s)) = fixedRasterizationState) \<and>
   (case constructor_main_b of
      Inl e \<Rightarrow> False
    | Inr d0 \<Rightarrow>
        (case onInitialize_main_b triangleMesh d0 of
           Inl e \<Rightarrow> False
         | Inr d1 \<Rightarrow>
             map_option (\<lambda>node. parameters (node_model node)) (modelNode_opt d1) =
               Some fixedRasterizationState \<and>
             drawCalls (commands (onRender_main_b d1 1)) = drawCalls (commands d1) + 1))"
proof -
  obtain d0 where d0: "constructor_main_b = Inr d0"
    using constructor_main_b_eq by simp
  obtain d1 where d1: "onInitialize_main_b triangleMesh d0 = Inr d1"
    and d1': "modelNode_opt d1 \<noteq> None"
    using onInitialize_main_b_triangleMesh [of d0] by simp
  note t = one_draw_when_model_exists
    [where mesh = triangleMesh and ?d0.0 = d0 and d = d1 and aspect = 1]
  from t have built:
    "case constructor_part_000 triangleMesh of
       Inl e \<Rightarrow> True
     | Inr s \<Rightarrow> parameters (node_model (modelNode s)) = fixedRasterizationState"
    "case onInitialize_main_b triangleMesh d0 of
       Inl e \<Rightarrow> True
     | Inr s \<Rightarrow>
         map_option (\<lambda>node. parameters (node_model node)) (modelNode_opt s) =
           Some fixedRasterizationState"
    by blast+
  from t have draws:
    "drawCalls (commands (onRender_main_b d1 1)) =
       drawCalls (commands d1) + (case modelNode_opt d1 of None \<Rightarrow> 0 | Some node \<Rightarrow> 1)"
    by blast
  have one: "drawCalls (commands (onRender_main_b d1 1)) = drawCalls (commands d1) + 1"
    using draws d1' by (cases "modelNode_opt d1") simp_all
  show ?thesis
    using built one by (simp add: d0 d1 constructor_part_000_triangleMesh)
qed

text \<open>
  C7, as worded, fails on the demo with \<^verbatim>\<open>onInitialize\<close>: a frame rendered on the
  constructed state, before the model node exists, begins and ends its render pass and
  draws nothing.
\<close>

theorem no_draw_before_onInitialize:
  "\<not> isl constructor_main_b \<and>
   modelNode_opt (projr constructor_main_b) = None \<and>
   commands (onRender_main_b (projr constructor_main_b) 1) =
     [BeginRenderPass [1, 1, 1, 1], EndRenderPass] \<and>
   drawCalls (commands (onRender_main_b (projr constructor_main_b) 1)) = 0"
  by (simp add: constructor_main_b_eq onRender_main_b_writes drawCalls_def)

subsection \<open>The output of a frame\<close>

lemma app_update_eq:
  fixes u u' :: "'u UniformStore"
  shows "lighting u = lighting u' \<Longrightarrow> u\<lparr>app := x\<rparr> = u'\<lparr>app := x\<rparr>"
  by (cases u; cases u') simp

lemma rotationX_report:
  "report (track (timeline s) (keyFramesX s)) = report (track (timeline s') (keyFramesX s'))
   \<Longrightarrow> rotationX s = rotationX s'"
  by (simp add: rotationX_def report_def Let_def)

lemma rotationY_report:
  "report (track (timeline s) (keyFramesX s)) = report (track (timeline s') (keyFramesX s'))
   \<Longrightarrow> report (track (timeline s) (keyFramesY s)) = report (track (timeline s') (keyFramesY s'))
   \<Longrightarrow> rotationY s = rotationY s'"
  by (simp add: rotationY_def report_def Let_def)

lemma rotation_report:
  "report (track (timeline s) (rotationKeyFrames s)) =
     report (track (timeline s') (rotationKeyFrames s'))
   \<Longrightarrow> rotation s = rotation s'"
  by (simp add: rotation_def report_def Let_def)

lemma same_output_main:
  assumes "cameraAndLight a eye light" "cameraAndLight a' eye light"
    and "report (track (timeline a) (keyFramesX a)) = report (track (timeline a') (keyFramesX a'))"
    and "report (track (timeline a) (keyFramesY a)) = report (track (timeline a') (keyFramesY a'))"
  shows "mvpMatrix (onRender_main a aspect) = mvpMatrix (onRender_main a' aspect) \<and>
         uniformStore (onRender_main a aspect) = uniformStore (onRender_main a' aspect)"
proof -
  have r: "rotationX a = rotationX a'" "rotationY a = rotationY a'"
    by (rule rotationX_report [OF assms(3)], rule rotationY_report [OF assms(3) assms(4)])
  have v: "viewMatrix a = viewMatrix a'" "lighting (uniformStore a) = lighting (uniformStore a')"
    using assms(1,2) by (simp_all add: cameraAndLight_def)
  show ?thesis
    by (simp add: onRender_main_writes r v(1)
        perspective_receiver [of "mvpMatrix a" _ _ "mvpMatrix a'"] app_update_eq [OF v(2)])
qed

lemma same_output_part_001:
  assumes "cameraAndLight b eye light" "cameraAndLight b' eye light"
    and "report (track (timeline b) (keyFramesX b)) = report (track (timeline b') (keyFramesX b'))"
    and "report (track (timeline b) (keyFramesY b)) = report (track (timeline b') (keyFramesY b'))"
  shows "projectionMatrix_tetra (onRender_part_001 b aspect) =
           projectionMatrix_tetra (onRender_part_001 b' aspect) \<and>
         uniformStore (onRender_part_001 b aspect) = uniformStore (onRender_part_001 b' aspect)"
proof -
  have r: "rotationX b = rotationX b'" "rotationY b = rotationY b'"
    by (rule rotationX_report [OF assms(3)], rule rotationY_report [OF assms(3) assms(4)])
  have v: "viewMatrix b = viewMatrix b'" "lighting (uniformStore b) = lighting (uniformStore b')"
    using assms(1,2) by (simp_all add: cameraAndLight_def)
  show ?thesis
    by (simp add: onRender_part_001_writes r v(1)
        perspective_receiver [of "projectionMatrix_tetra b" _ _ "projectionMatrix_tetra b'"]
        app_update_eq [OF v(2)])
qed

lemma same_output_part_000:
  assumes "cameraAndLight c eye light" "cameraAndLight c' eye light"
    and "report (track (timeline c) (rotationKeyFrames c)) =
           report (track (timeline c') (rotationKeyFrames c'))"
  shows "projectionMatrix (onRender_part_000 c aspect) =
           projectionMatrix (onRender_part_000 c' aspect) \<and>
         uniformStore (onRender_part_000 c aspect) = uniformStore (onRender_part_000 c' aspect)"
proof -
  have r: "rotation c = rotation c'"
    by (rule rotation_report [OF assms(3)])
  have v: "viewMatrix c = viewMatrix c'" "lighting (uniformStore c) = lighting (uniformStore c')"
    using assms(1,2) by (simp_all add: cameraAndLight_def)
  show ?thesis
    by (simp add: onRender_part_000_writes r v(1)
        perspective_receiver [of "projectionMatrix c" _ _ "projectionMatrix c'"]
        app_update_eq [OF v(2)])
qed

lemma same_output_main_b:
  assumes "cameraAndLight d eye light" "cameraAndLight d' eye light"
    and "report (track (timeline d) (rotationKeyFrames d)) =
           report (track (timeline d') (rotationKeyFrames d'))"
  shows "projectionMatrix (onRender_main_b d aspect) =
           projectionMatrix (onRender_main_b d' aspect) \<and>
         uniformStore (onRender_main_b d aspect) = uniformStore (onRender_main_b d' aspect)"
proof -
  have r: "rotation d = rotation d'"
    by (rule rotation_report [OF assms(3)])
  have v: "viewMatrix d = viewMatrix d'" "lighting (uniformStore d) = lighting (uniformStore d')"
    using assms(1,2) by (simp_all add: cameraAndLight_def)
  show ?thesis
    by (simp add: onRender_main_b_writes r v(1)
        perspective_receiver [of "projectionMatrix d" _ _ "projectionMatrix d'"]
        app_update_eq [OF v(2)])
qed

text \<open>
  C8. Take two runs of a demo, each any list of ticks and frames from the constructor
  on (in the demo with \<^verbatim>\<open>onInitialize\<close>, also two runs that go through it). If the tracks
  report the same start value, end value and factor after both runs, then a frame with
  the same aspect ratio produces the same matrices and leaves the same uniforms in the
  store after both, whatever the two runs left in the projection (or
  model-view-projection) member and in the store. Numbers being reals here, identical
  means equal.
\<close>

theorem frame_output_is_a_function_of_tracks_and_aspect:
  "(constructor_main = Inr a0 \<and>
    a = frames onRender_main a0 events \<and> a' = frames onRender_main a0 events' \<and>
    report (track (timeline a) (keyFramesX a)) = report (track (timeline a') (keyFramesX a')) \<and>
    report (track (timeline a) (keyFramesY a)) = report (track (timeline a') (keyFramesY a'))
    \<longrightarrow>
      mvpMatrix (onRender_main a aspect) = mvpMatrix (onRender_main a' aspect) \<and>
      uniformStore (onRender_main a aspect) = uniformStore (onRender_main a' aspect)) \<and>
   (constructor_part_001 = Inr b0 \<and>
    b = frames onRender_part_001 b0 events \<and> b' = frames onRender_part_001 b0 events' \<and>
    report (track (timeline b) (keyFramesX b)) = report (track (timeline b') (keyFramesX b')) \<and>
    report (track (timeline b) (keyFramesY b)) = report (track (timeline b') (keyFramesY b'))
    \<longrightarrow>
      projectionMatrix_tetra (onRender_part_001 b aspect) =
        projectionMatrix_tetra (onRender_part_001 b' aspect) \<and>
      uniformStore (onRender_part_001 b aspect) = uniformStore (onRender_part_001 b' aspect)) \<and>
   (constructor_part_000 mesh = Inr c0 \<and>
    c = frames onRender_part_000 c0 events \<and> c' = frames onRender_part_000 c0 events' \<and>
    report (track (timeline c) (rotationKeyFrames c)) =
      report (track (timeline c') (rotationKeyFrames c'))
    \<longrightarrow>
      projectionMatrix (onRender_part_000 c aspect) =
        projectionMatrix (onRender_part_000 c' aspect) \<and>
      uniformStore (onRender_part_000 c aspect) = uniformStore (onRender_part_000 c' aspect)) \<and>
   (constructor_main_b = Inr d0 \<and>
    d = frames onRender_main_b d0 events \<and> d' = frames onRender_main_b d0 events' \<and>
    report (track (timeline d) (rotationKeyFrames d)) =
      report (track (timeline d') (rotationKeyFrames d'))
    \<longrightarrow>
      projectionMatrix (onRender_main_b d aspect) =
        projectionMatrix (onRender_main_b d' aspect) \<and>
      uniformStore (onRender_main_b d aspect) = uniformStore (onRender_main_b d' aspect)) \<and>
   (constructor_main_b = Inr d0 \<and>
    onInitialize_main_b mesh (frames onRender_main_b d0 before) = Inr d1 \<and>
    onInitialize_main_b mesh' (frames onRender_main_b d0 before') = Inr d1' \<and>
    e = frames onRender_main_b d1 events \<and> e' = frames onRender_main_b d1' events' \<and>
    report (track (timeline e) (rotationKeyFrames e)) =
      report (track (timeline e') (rotationKeyFrames e'))
    \<longrightarrow>
      projectionMatrix (onRender_main_b e aspect) =
        projectionMatrix (onRender_main_b e' aspect) \<and>
      uniformStore (onRender_main_b e aspect) = uniformStore (onRender_main_b e' aspect))"
proof (intro conjI impI; elim conjE)
  assume h: "constructor_main = Inr a0"
    "a = frames onRender_main a0 events" "a' = frames onRender_main a0 events'"
    "report (track (timeline a) (keyFramesX a)) = report (track (timeline a') (keyFramesX a'))"
    "report (track (timeline a) (keyFramesY a)) = report (track (timeline a') (keyFramesY a'))"
  from same_output_main [OF _ _ h(4) h(5), of eyePosition_tetra lightPosition_tetra aspect]
    cameraAndLight_main [OF h(1), of events] cameraAndLight_main [OF h(1), of events'] h(2,3)
  show "mvpMatrix (onRender_main a aspect) = mvpMatrix (onRender_main a' aspect)"
    and "uniformStore (onRender_main a aspect) = uniformStore (onRender_main a' aspect)"
    by simp_all
next
  assume h: "constructor_part_001 = Inr b0"
    "b = frames onRender_part_001 b0 events" "b' = frames onRender_part_001 b0 events'"
    "report (track (timeline b) (keyFramesX b)) = report (track (timeline b') (keyFramesX b'))"
    "report (track (timeline b) (keyFramesY b)) = report (track (timeline b') (keyFramesY b'))"
  from same_output_part_001 [OF _ _ h(4) h(5), of eyePosition_tetra lightPosition_tetra aspect]
    cameraAndLight_part_001 [OF h(1), of events] cameraAndLight_part_001 [OF h(1), of events']
    h(2,3)
  show "projectionMatrix_tetra (onRender_part_001 b aspect) =
        projectionMatrix_tetra (onRender_part_001 b' aspect)"
    and "uniformStore (onRender_part_001 b aspect) = uniformStore (onRender_part_001 b' aspect)"
    by simp_all
next
  assume h: "constructor_part_000 mesh = Inr c0"
    "c = frames onRender_part_000 c0 events" "c' = frames onRender_part_000 c0 events'"
    "report (track (timeline c) (rotationKeyFrames c)) =
      report (track (timeline c') (rotationKeyFrames c'))"
  from same_output_part_000 [OF _ _ h(4), of eyePosition_ico lightPosition_ico aspect]
    cameraAndLight_part_000 [OF h(1), of events] cameraAndLight_part_000 [OF h(1), of events']
    h(2,3)
  show "projectionMatrix (onRender_part_000 c aspect) =
        projectionMatrix (onRender_part_000 c' aspect)"
    and "uniformStore (onRender_part_000 c aspect) = uniformStore (onRender_part_000 c' aspect)"
    by simp_all
next
  assume h: "constructor_main_b = Inr d0"
    "d = frames onRender_main_b d0 events" "d' = frames onRender_main_b d0 events'"
    "report (track (timeline d) (rotationKeyFrames d)) =
      report (track (timeline d') (rotationKeyFrames d'))"
  from same_output_main_b [OF _ _ h(4), of eyePosition_ico lightPosition_ico aspect]
    cameraAndLight_main_b [OF h(1), of events] cameraAndLight_main_b [OF h(1), of events']
    h(2,3)
  show "projectionMatrix (onRender_main_b d aspect) =
        projectionMatrix (onRender_main_b d' aspect)"
    and "uniformStore (onRender_main_b d aspect) = uniformStore (onRender_main_b d' aspect)"
    by simp_all
next
  assume h: "constructor_main_b = Inr d0"
    "onInitialize_main_b mesh (frames onRender_main_b d0 before) = Inr d1"
    "onInitialize_main_b mesh' (frames onRender_main_b d0 before') = Inr d1'"
    "e = frames onRender_main_b d1 events" "e' = frames onRender_main_b d1' events'"
    "report (track (timeline e) (rotationKeyFrames e)) =
      report (track (timeline e') (rotationKeyFrames e'))"
  from same_output_main_b [OF _ _ h(6), of eyePosition_ico lightPosition_ico aspect]
    cameraAndLight_after_onInitialize [OF h(1) h(2), of events]
    cameraAndLight_after_onInitialize [OF h(1) h(3), of events'] h(4,5)
  show "projectionMatrix (onRender_main_b e aspect) =
        projectionMatrix (onRender_main_b e' aspect)"
    and "uniformStore (onRender_main_b e aspect) = uniformStore (onRender_main_b e' aspect)"
    by simp_all
qed

text \<open>
  A run of no events and a run of one frame at aspect ratio 2: the tracks report the
  same, the uniform stores differ, and the next frame at aspect ratio 1 produces the same
  output after both.
\<close>

theorem frame_output_is_a_function_of_tracks_and_aspect_witness:
  "(case constructor_main of
      Inl e \<Rightarrow> False
    | Inr a0 \<Rightarrow>
        (let a = frames onRender_main a0 []; a' = frames onRender_main a0 [Render 2]
         in report (track (timeline a) (keyFramesX a)) =
              report (track (timeline a') (keyFramesX a')) \<and>
            report (track (timeline a) (keyFramesY a)) =
              report (track (timeline a') (keyFramesY a')) \<and>
            uniformStore a \<noteq> uniformStore a' \<and>
            mvpMatrix (onRender_main a 1) = mvpMatrix (onRender_main a' 1) \<and>
            uniformStore (onRender_main a 1) = uniformStore (onRender_main a' 1))) \<and>
   (case constructor_part_001 of
      Inl e \<Rightarrow> False
    | Inr b0 \<Rightarrow>
        (let b = frames onRender_part_001 b0 []; b' = frames onRender_part_001 b0 [Render 2]
         in report (track (timeline b) (keyFramesX b)) =
              report (track (timeline b') (keyFramesX b')) \<and>
            report (track (timeline b) (keyFramesY b)) =
              report (track (timeline b') (keyFramesY b')) \<and>
            uniformStore b \<noteq> uniformStore b' \<and>
            projectionMatrix_tetra (onRender_part_001 b 1) =
              projectionMatrix_tetra (onRender_part_001 b' 1) \<and>
            uniformStore (onRender_part_001 b 1) = uniformStore (onRender_part_001 b' 1))) \<and>
   (case constructor_part_000 triangleMesh of
      Inl e \<Rightarrow> False
    | Inr c0 \<Rightarrow>
        (let c = frames onRender_part_000 c0 []; c' = frames onRender_part_000 c0 [Render 2]
         in report (track (timeline c) (rotationKeyFrames c)) =
              report (track (timeline c') (rotationKeyFrames c')) \<and>
            uniformStore c \<noteq> uniformStore c' \<and>
            projectionMatrix (onRender_part_000 c 1) =
              projectionMatrix (onRender_part_000 c' 1) \<and>
            uniformStore (onRender_part_000 c 1) = uniformStore (onRender_part_000 c' 1))) \<and>
   (case constructor_main_b of
      Inl e \<Rightarrow> False
    | Inr d0 \<Rightarrow>
        (let d = frames onRender_main_b d0 []; d' = frames onRender_main_b d0 [Render 2]
         in report (track (timeline d) (rotationKeyFrames d)) =
              report (track (timeline d') (rotationKeyFrames d')) \<and>
            uniformStore d \<noteq> uniformStore d' \<and>
            projectionMatrix (onRender_main_b d 1) = projectionMatrix (onRender_main_b d' 1) \<and>
            uniformStore (onRender_main_b d 1) = uniformStore (onRender_main_b d' 1)) \<and>
        (case onInitialize_main_b triangleMesh d0 of
           Inl e \<Rightarrow> False
         | Inr d1 \<Rightarrow>
             (let e = frames onRender_main_b d1 []; e' = frames onRender_main_b d1 [Render 2]
              in report (track (timeline e) (rotationKeyFrames e)) =
                   report (track (timeline e') (rotationKeyFrames e')) \<and>
                 uniformStore e \<noteq> uniformStore e' \<and>
                 projectionMatrix (onRender_main_b e 1) =
                   projectionMatrix (onRender_main_b e' 1) \<and>
                 uniformStore (onRender_main_b e 1) = uniformStore (onRender_main_b e' 1))))"
proof -
  obtain a0 where a0: "constructor_main = Inr a0" and a0': "app (uniformStore a0) = None"
    using constructor_main_eq by simp
  obtain b0 where b0: "constructor_part_001 = Inr b0" and b0': "app (uniformStore b0) = None"
    using constructor_part_001_eq by simp
  obtain c0 where c0: "constructor_part_000 triangleMesh = Inr c0"
    and c0': "app (uniformStore c0) = None"
    using constructor_part_000_triangleMesh by simp
  obtain d0 where d0: "constructor_main_b = Inr d0" and d0': "app (uniformStore d0) = None"
    using constructor_main_b_eq by simp
  obtain d1 where d1: "onInitialize_main_b triangleMesh d0 = Inr d1"
    and d1': "app (uniformStore d1) = None"
    using onInitialize_main_b_triangleMesh [of d0] d0' by simp
  have d1f: "onInitialize_main_b triangleMesh (frames onRender_main_b d0 []) = Inr d1"
    using d1 by (simp add: frames_Nil)
  have ne: "uniformStore a0 \<noteq> uniformStore (onRender_main a0 2)"
    "uniformStore b0 \<noteq> uniformStore (onRender_part_001 b0 2)"
    "uniformStore c0 \<noteq> uniformStore (onRender_part_000 c0 2)"
    "uniformStore d0 \<noteq> uniformStore (onRender_main_b d0 2)"
    "uniformStore d1 \<noteq> uniformStore (onRender_main_b d1 2)"
    using a0' b0' c0' d0' d1'
    by (auto simp add: onRender_main_writes onRender_part_001_writes onRender_part_000_writes
        onRender_main_b_writes dest: arg_cong [where f = app])
  have same: "timeline (onRender_main a0 2) = timeline a0"
    "keyFramesX (onRender_main a0 2) = keyFramesX a0"
    "keyFramesY (onRender_main a0 2) = keyFramesY a0"
    "timeline (onRender_part_001 b0 2) = timeline b0"
    "keyFramesX (onRender_part_001 b0 2) = keyFramesX b0"
    "keyFramesY (onRender_part_001 b0 2) = keyFramesY b0"
    "timeline (onRender_part_000 c0 2) = timeline c0"
    "rotationKeyFrames (onRender_part_000 c0 2) = rotationKeyFrames c0"
    "timeline (onRender_main_b d0 2) = timeline d0"
    "rotationKeyFrames (onRender_main_b d0 2) = rotationKeyFrames d0"
    "timeline (onRender_main_b d1 2) = timeline d1"
    "rotationKeyFrames (onRender_main_b d1 2) = rotationKeyFrames d1"
    by (simp_all add: onRender_main_writes onRender_part_001_writes onRender_part_000_writes
        onRender_main_b_writes)
  show ?thesis
    using frame_output_is_a_function_of_tracks_and_aspect
      [where ?a0.0 = a0 and a = "frames onRender_main a0 []"
         and a' = "frames onRender_main a0 [Render 2]"
         and ?b0.0 = b0 and b = "frames onRender_part_001 b0 []"
         and b' = "frames onRender_part_001 b0 [Render 2]"
         and ?c0.0 = c0 and c = "frames onRender_part_000 c0 []"
         and c' = "frames onRender_part_000 c0 [Render 2]"
         and ?d0.0 = d0 and d = "frames onRender_main_b d0 []"
         and d' = "frames onRender_main_b d0 [Render 2]"
         and ?d1.0 = d1 and ?d1'.0 = d1 and before = "[]" and before' = "[]"
         and mesh' = triangleMesh
         and e = "frames onRender_main_b d1 []" and e' = "frames onRender_main_b d1 [Render 2]"
         and events = "[]" and events' = "[Render 2]" and mesh = triangleMesh and aspect = 1]
      ne d1f
    by (simp add: a0 b0 c0 d0 d1 frames_Cons frames_Nil same Let_def)
qed

subsection \<open>The interleaved buffer of the icosphere\<close>

lemma element_in_range:
  "1 \<le> i \<Longrightarrow> i \<le> int (length xs) \<Longrightarrow> element xs (i - 1) = Some (xs ! nat (i - 1))"
  by (simp add: element_def)

lemma flatMap_faceFloats:
  "list_all (\<lambda>(i, j). 1 \<le> i \<and> i \<le> int (length (vertices mesh)) \<and>
                       1 \<le> j \<and> j \<le> int (length (normals mesh))) fs \<Longrightarrow>
   flatMap (faceFloats mesh) fs =
     Inr (concat (map (\<lambda>(i, j). vertices mesh ! nat (i - 1) @ normals mesh ! nat (j - 1)) fs))"
  by (induction fs) (auto simp add: faceFloats_def element_in_range)

lemma length_faceFloats:
  "list_all (\<lambda>v. length v = 3) (vertices mesh) \<Longrightarrow>
   list_all (\<lambda>n. length n = 3) (normals mesh) \<Longrightarrow>
   list_all (\<lambda>(i, j). 1 \<le> i \<and> i \<le> int (length (vertices mesh)) \<and>
                       1 \<le> j \<and> j \<le> int (length (normals mesh))) fs \<Longrightarrow>
   length (concat (map (\<lambda>(i, j). vertices mesh ! nat (i - 1) @ normals mesh ! nat (j - 1)) fs))
     = 6 * length fs"
proof (induction fs)
  case Nil
  then show ?case by simp
next
  case (Cons f fs)
  obtain i j where f: "f = (i, j)" by (cases f)
  from Cons.prems(3) f have ij: "1 \<le> i" "i \<le> int (length (vertices mesh))"
      "1 \<le> j" "j \<le> int (length (normals mesh))" and rest: "list_all (\<lambda>(i, j). 1 \<le> i \<and> i \<le> int (length (vertices mesh)) \<and>
                       1 \<le> j \<and> j \<le> int (length (normals mesh))) fs"
    by simp_all
  have "nat (i - 1) < length (vertices mesh)" "nat (j - 1) < length (normals mesh)"
    using ij by linarith+
  then have "length (vertices mesh ! nat (i - 1)) = 3" "length (normals mesh ! nat (j - 1)) = 3"
    using Cons.prems(1,2) by (simp_all add: list_all_length)
  then show ?case
    using Cons.IH [OF Cons.prems(1,2) rest] f by simp
qed

text \<open>
  C10. For a well-formed mesh the interleaved buffer of the icosphere demos is, for
  every face \<open>[i, j]\<close> in order, the floats of \<open>vertices[i - 1]\<close> followed by the floats
  of \<open>normals[j - 1]\<close>; it has \<open>6 * faces.length\<close> floats; and with the vertex count
  \<open>faces.length\<close>, the stride of 24 bytes and the offsets 0 and 12, every
  \<^verbatim>\<open>float32x3\<close> attribute read of every vertex ends within the buffer's bytes. The
  constructor of the one demo and \<^verbatim>\<open>onInitialize\<close> of the other build their model from
  this buffer.
\<close>

theorem interleaved_buffer_reads_in_bounds:
  assumes "wellFormed mesh"
  shows "\<exists>vertexData s.
     vertexData_ico mesh = Inr vertexData \<and>
     vertexData =
       concat (map (\<lambda>(i, j). vertices mesh ! nat (i - 1) @ normals mesh ! nat (j - 1))
                 (faces mesh)) \<and>
     length vertexData = 6 * length (faces mesh) \<and>
     constructor_part_000 mesh = Inr s \<and>
     node_model (modelNode s) = model_ico mesh vertexData \<and>
     onInitialize_main_b mesh s' =
       Inr (s'\<lparr>modelNode_opt := Some \<lparr>node_model = model_ico mesh vertexData,
                                       managedResources = [vertexData]\<rparr>\<rparr>) \<and>
     vertexCount (model_ico mesh vertexData) = length (faces mesh) \<and>
     attributes (model_ico mesh vertexData) = [(''vertexData'', vertexData)] \<and>
     bufferLayout (model_ico mesh vertexData) =
       [Interleaved ''vertexData'' 24
          [Attribute ''position'' ''float32x3'' 0, Attribute ''normal'' ''float32x3'' 12]] \<and>
     (\<forall>k < vertexCount (model_ico mesh vertexData).
        \<forall>a \<in> set [Attribute ''position'' ''float32x3'' 0, Attribute ''normal'' ''float32x3'' 12].
          24 * k + byteOffset a + formatBytes (format a) \<le> byteLength vertexData)"
proof -
  define vertexData where "vertexData =
    concat (map (\<lambda>(i, j). vertices mesh ! nat (i - 1) @ normals mesh ! nat (j - 1)) (faces mesh))"
  have vd: "vertexData_ico mesh = Inr vertexData"
    using assms by (simp add: vertexData_ico_def wellFormed_def flatMap_faceFloats vertexData_def)
  have len: "length vertexData = 6 * length (faces mesh)"
    using assms by (simp add: wellFormed_def length_faceFloats vertexData_def)
  have bounds: "24 * k + byteOffset a + formatBytes (format a) \<le> byteLength vertexData"
    if "k < vertexCount (model_ico mesh vertexData)"
      and "a \<in> set [Attribute ''position'' ''float32x3'' 0, Attribute ''normal'' ''float32x3'' 12]"
    for k a
    using that len by (auto simp add: model_ico_def byteLength_def formatBytes_def)
  obtain s where s: "constructor_part_000 mesh = Inr s"
      "node_model (modelNode s) = model_ico mesh vertexData"
    using constructor_part_000_eq [OF vd] by simp
  have init: "onInitialize_main_b mesh s' =
       Inr (s'\<lparr>modelNode_opt := Some \<lparr>node_model = model_ico mesh vertexData,
                                       managedResources = [vertexData]\<rparr>\<rparr>)"
    using vd by (simp add: onInitialize_main_b_def)
  have m: "vertexCount (model_ico mesh vertexData) = length (faces mesh)"
      "attributes (model_ico mesh vertexData) = [(''vertexData'', vertexData)]"
      "bufferLayout (model_ico mesh vertexData) =
         [Interleaved ''vertexData'' 24
            [Attribute ''position'' ''float32x3'' 0, Attribute ''normal'' ''float32x3'' 12]]"
    by (simp_all add: model_ico_def)
  show ?thesis
    apply (rule exI [of _ vertexData])
    apply (rule exI [of _ s])
    using vd len bounds s init m vertexData_def by blast
qed

text \<open>The mesh of one triangle: 18 floats, and the last normal read ends at byte 72.\<close>

theorem interleaved_buffer_reads_in_bounds_witness:
  "wellFormed triangleMesh \<and>
   vertexData_ico triangleMesh =
     Inr [0, 0, 0, 0, 0, 1,  1, 0, 0, 0, 0, 1,  0, 1, 0, 0, 0, 1] \<and>
   (\<exists>vertexData.
      vertexData_ico triangleMesh = Inr vertexData \<and>
      length vertexData = 6 * length (faces triangleMesh) \<and>
      vertexCount (model_ico triangleMesh vertexData) = 3 \<and>
      24 * 2 + byteOffset (Attribute ''normal'' ''float32x3'' 12) +
        formatBytes (format (Attribute ''normal'' ''float32x3'' 12)) \<le> byteLength vertexData)"
proof -
  have wf: "wellFormed triangleMesh"
    by (simp add: wellFormed_def triangleMesh_def)
  from interleaved_buffer_reads_in_bounds [OF wf]
  obtain vertexData where vd: "vertexData_ico triangleMesh = Inr vertexData"
    and len: "length vertexData = 6 * length (faces triangleMesh)"
    and cnt: "vertexCount (model_ico triangleMesh vertexData) = length (faces triangleMesh)"
    and inb: "\<forall>k < vertexCount (model_ico triangleMesh vertexData).
        \<forall>a \<in> set [Attribute ''position'' ''float32x3'' 0, Attribute ''normal'' ''float32x3'' 12].
          24 * k + byteOffset a + formatBytes (format a) \<le> byteLength vertexData"
    by blast
  have three: "length (faces triangleMesh) = 3"
    by (simp add: triangleMesh_def)
  have "24 * 2 + byteOffset (Attribute ''normal'' ''float32x3'' 12) +
        formatBytes (format (Attribute ''normal'' ''float32x3'' 12)) \<le> byteLength vertexData"
    using inb [rule_format, of 2 "Attribute ''normal'' ''float32x3'' 12"] cnt three by simp
  then show ?thesis
    using wf vd len cnt three vertexData_triangleMesh by auto
qed

end
